theory Spec2Isabelle
  imports Complex_Main "HOL-Library.Multiset"
begin

section \<open>JavaScript values used by the benchmark and scan pipeline\<close>

text \<open>
  A JavaScript number is modelled by the real value it denotes, together with the three
  special values. Arithmetic is exact: rounding to binary64 and the sign of zero are not
  modelled. Every integer below \<open>2 ^ 53\<close> and every product of such an integer with a
  power of 1024 is exact in binary64 as well.
\<close>

datatype number = Fin real | PosInf | NegInf | NaN

text \<open>\<^verbatim>\<open>x > c\<close> for a finite constant \<open>c\<close>; every comparison with NaN is false.\<close>

fun num_gt :: "number \<Rightarrow> real \<Rightarrow> bool" where
  "num_gt (Fin x) c = (x > c)"
| "num_gt PosInf c = True"
| "num_gt NegInf c = False"
| "num_gt NaN c = False"

text \<open>\<^verbatim>\<open>x < c\<close> and \<^verbatim>\<open>x >= c\<close> for a finite constant \<open>c\<close>.\<close>

fun num_lt :: "number \<Rightarrow> real \<Rightarrow> bool" where
  "num_lt (Fin x) c = (x < c)"
| "num_lt PosInf c = False"
| "num_lt NegInf c = True"
| "num_lt NaN c = False"

fun num_ge :: "number \<Rightarrow> real \<Rightarrow> bool" where
  "num_ge (Fin x) c = (x \<ge> c)"
| "num_ge PosInf c = True"
| "num_ge NegInf c = False"
| "num_ge NaN c = False"

text \<open>The sign of a number that is not NaN: \<open>-1\<close>, \<open>0\<close> or \<open>1\<close>.\<close>

fun num_sgn :: "number \<Rightarrow> int" where
  "num_sgn (Fin x) = (if x < 0 then -1 else if x = 0 then 0 else 1)"
| "num_sgn PosInf = 1"
| "num_sgn NegInf = -1"
| "num_sgn NaN = 0"

definition inf_of_sign :: "int \<Rightarrow> number" where
  "inf_of_sign s = (if s < 0 then NegInf else if s = 0 then NaN else PosInf)"

text \<open>\<^verbatim>\<open>a * b\<close>: infinity times zero is NaN.\<close>

fun num_mul :: "number \<Rightarrow> number \<Rightarrow> number" where
  "num_mul NaN b = NaN"
| "num_mul a NaN = NaN"
| "num_mul (Fin x) (Fin y) = Fin (x * y)"
| "num_mul a b = inf_of_sign (num_sgn a * num_sgn b)"

text \<open>
  \<^verbatim>\<open>a / b\<close>: a non-zero number over zero is an infinity, zero over zero and infinity
  over infinity are NaN, a finite number over an infinity is zero.
\<close>

fun num_div :: "number \<Rightarrow> number \<Rightarrow> number" where
  "num_div NaN b = NaN"
| "num_div a NaN = NaN"
| "num_div (Fin x) (Fin y) = (if y = 0 then inf_of_sign (num_sgn (Fin x)) else Fin (x / y))"
| "num_div (Fin x) b = Fin 0"
| "num_div a (Fin y) = inf_of_sign (num_sgn a * (if y < 0 then -1 else 1))"
| "num_div a b = NaN"

text \<open>\<^verbatim>\<open>Math.round\<close>: the nearest integer, a half rounded up.\<close>

definition Math_round :: "real \<Rightarrow> int" where
  "Math_round x = \<lfloor>x + 1 / 2\<rfloor>"

fun num_round :: "number \<Rightarrow> number" where
  "num_round (Fin x) = Fin (of_int (Math_round x))"
| "num_round a = a"

text \<open>
  A value that may be \<^verbatim>\<open>undefined\<close> (\<open>None\<close>) where the code uses it as a number:
  \<^verbatim>\<open>undefined\<close> converts to NaN.
\<close>

definition to_number :: "number option \<Rightarrow> number" where
  "to_number v = (case v of None \<Rightarrow> NaN | Some n \<Rightarrow> n)"

subsection \<open>Strings\<close>

definition is_digit :: "char \<Rightarrow> bool" where
  "is_digit c = (c \<in> set ''0123456789'')"

definition is_space :: "char \<Rightarrow> bool" where
  "is_space c = (c \<in> {CHR '' '', CHR 0x09, CHR 0x0A, CHR 0x0B, CHR 0x0C, CHR 0x0D})"

definition digit_val :: "char \<Rightarrow> nat" where
  "digit_val c = of_char c - 48"

text \<open>The value of a string of decimal digits, most significant first.\<close>

definition digits_val :: "string \<Rightarrow> nat" where
  "digits_val ds = foldl (\<lambda>a c. 10 * a + digit_val c) 0 ds"

text \<open>\<^verbatim>\<open>s.trim()\<close>\<close>

definition trim :: "string \<Rightarrow> string" where
  "trim s = rev (dropWhile is_space (rev (dropWhile is_space s)))"

text \<open>\<^verbatim>\<open>s.split(c)\<close> for a one-character separator: never an empty array.\<close>

fun split :: "char \<Rightarrow> string \<Rightarrow> string list" where
  "split sep [] = [[]]"
| "split sep (c # cs) =
     (if c = sep then [] # split sep cs
      else (case split sep cs of p # ps \<Rightarrow> (c # p) # ps | [] \<Rightarrow> [[c]]))"

text \<open>\<^verbatim>\<open>s.replace(c, '')\<close> for a one-character pattern: the first occurrence only.\<close>

fun remove_first :: "char \<Rightarrow> string \<Rightarrow> string" where
  "remove_first x [] = []"
| "remove_first x (c # cs) = (if c = x then cs else c # remove_first x cs)"

text \<open>\<^verbatim>\<open>xs[i]\<close> on an array: \<^verbatim>\<open>undefined\<close> out of range.\<close>

definition nth_opt :: "'a list \<Rightarrow> nat \<Rightarrow> 'a option" where
  "nth_opt xs i = (if i < length xs then Some (xs ! i) else None)"

text \<open>The decimal digits of a natural number.\<close>

definition digit_char :: "nat \<Rightarrow> char" where
  "digit_char d = ''0123456789'' ! d"

fun show_nat :: "nat \<Rightarrow> string" where
  "show_nat n = (if n < 10 then [digit_char n] else show_nat (n div 10) @ [digit_char (n mod 10)])"

declare show_nat.simps [simp del]

text \<open>
  \<^verbatim>\<open>parseFloat(s)\<close>: leading white space is skipped, then the longest prefix that is a
  decimal literal is read (sign, digits, fraction, exponent, or \<^verbatim>\<open>Infinity\<close>); NaN when
  there is none. The result is the exact value of the literal.
\<close>

definition exponent_part :: "string \<Rightarrow> int" where
  "exponent_part r =
     (case r of
        [] \<Rightarrow> 0
      | c # r' \<Rightarrow>
          if c = CHR ''e'' \<or> c = CHR ''E'' then
            (case r' of
               [] \<Rightarrow> 0
             | d # r'' \<Rightarrow>
                 if d = CHR ''-'' then - int (digits_val (takeWhile is_digit r''))
                 else if d = CHR ''+'' then int (digits_val (takeWhile is_digit r''))
                 else int (digits_val (takeWhile is_digit r')))
          else 0)"

definition unsigned_literal :: "string \<Rightarrow> number" where
  "unsigned_literal t =
     (if take 8 t = ''Infinity'' then PosInf
      else
        let ds = takeWhile is_digit t;
            r1 = dropWhile is_digit t;
            has_dot = (r1 \<noteq> [] \<and> hd r1 = CHR ''.'');
            fs = (if has_dot then takeWhile is_digit (tl r1) else []);
            r2 = (if has_dot then dropWhile is_digit (tl r1) else r1)
        in if ds = [] \<and> fs = [] then NaN
           else Fin ((real (digits_val ds) + real (digits_val fs) / 10 ^ length fs)
                     * 10 powi exponent_part r2))"

definition num_neg :: "number \<Rightarrow> number" where
  "num_neg a = (case a of Fin x \<Rightarrow> Fin (- x) | PosInf \<Rightarrow> NegInf | NegInf \<Rightarrow> PosInf | NaN \<Rightarrow> NaN)"

definition parseFloat :: "string \<Rightarrow> number" where
  "parseFloat s =
     (case dropWhile is_space s of
        [] \<Rightarrow> NaN
      | c # t \<Rightarrow>
          if c = CHR ''-'' then num_neg (unsigned_literal t)
          else if c = CHR ''+'' then unsigned_literal t
          else unsigned_literal (c # t))"

text \<open>\<^verbatim>\<open>parseFloat(v)\<close> where \<open>v\<close> may be \<^verbatim>\<open>undefined\<close>: the string "undefined" is no number.\<close>

definition parseFloat_opt :: "string option \<Rightarrow> number" where
  "parseFloat_opt v = (case v of None \<Rightarrow> NaN | Some s \<Rightarrow> parseFloat s)"

text \<open>
  The template literal \<^verbatim>\<open>`${x}`\<close> for a number with at most two decimals, the only
  numbers this program formats: positional notation, no trailing zeros. (JavaScript
  switches to exponent notation from \<open>10 ^ 21\<close> on; that is not modelled.)
\<close>

definition show_hundredths :: "int \<Rightarrow> string" where
  "show_hundredths r =
     (let a = nat \<bar>r\<bar>; ip = a div 100; fp = a mod 100
      in (if r < 0 then ''-'' else [])
         @ show_nat ip
         @ (if fp = 0 then []
            else ''.'' @ [digit_char (fp div 10)]
                 @ (if fp mod 10 = 0 then [] else [digit_char (fp mod 10)])))"

definition number_to_string :: "number \<Rightarrow> string" where
  "number_to_string a =
     (case a of
        Fin x \<Rightarrow> show_hundredths (Math_round (x * 100))
      | PosInf \<Rightarrow> ''Infinity''
      | NegInf \<Rightarrow> ''-Infinity''
      | NaN \<Rightarrow> ''NaN'')"

subsection \<open>The size patterns\<close>

text \<open>
  \<^verbatim>\<open>s.match(/(\d+\.?\d*)(U1|U2|...)/)\<close> for a list of unit suffixes: the leftmost
  match, as (whole match, group 1, group 2), or \<open>None\<close> for \<^verbatim>\<open>null\<close>. At a start
  position the greedy reading (all digits, a dot if one follows, all digits after it) is
  the only one that can be followed by a unit, since no unit begins with a digit or a
  dot, so backtracking finds no other match.
\<close>

definition unit_prefix :: "string list \<Rightarrow> string \<Rightarrow> string option" where
  "unit_prefix alts r = List.find (\<lambda>u. take (length u) r = u) alts"

definition size_match_here :: "string list \<Rightarrow> string \<Rightarrow> (string \<times> string \<times> string) option" where
  "size_match_here alts s =
     (let ds = takeWhile is_digit s;
          r1 = dropWhile is_digit s;
          has_dot = (r1 \<noteq> [] \<and> hd r1 = CHR ''.'');
          r2 = (if has_dot then tl r1 else r1);
          g1 = ds @ (if has_dot then ''.'' else []) @ takeWhile is_digit r2;
          r3 = dropWhile is_digit r2
      in if ds = [] then None
         else (case unit_prefix alts r3 of
                 None \<Rightarrow> None
               | Some u \<Rightarrow> Some (g1 @ u, g1, u)))"

fun size_match :: "string list \<Rightarrow> string \<Rightarrow> (string \<times> string \<times> string) option" where
  "size_match alts [] = None"
| "size_match alts (c # cs) =
     (case size_match_here alts (c # cs) of
        Some m \<Rightarrow> Some m
      | None \<Rightarrow> size_match alts cs)"

text \<open>
  \<^verbatim>\<open>units[unit] || 0\<close> on an object literal: a missing key and \<^verbatim>\<open>undefined\<close> give 0.
\<close>

definition unit_exponent :: "(string \<times> nat) list \<Rightarrow> string option \<Rightarrow> nat" where
  "unit_exponent units unit =
     (case unit of
        None \<Rightarrow> 0
      | Some u \<Rightarrow> (case map_of units u of None \<Rightarrow> 0 | Some e \<Rightarrow> e))"

definition Math_pow :: "nat \<Rightarrow> nat \<Rightarrow> number" where
  "Math_pow b e = Fin (real (b ^ e))"

section \<open>The container engine and the clock\<close>

text \<open>
  \<^verbatim>\<open>execSync\<close> runs a command of the container engine and either returns its output
  or throws (non-zero exit). The engine is outside the program, so the world carries an
  arbitrary answer for the n-th command issued: whether it succeeds, what it prints and how
  many milliseconds it takes. The world also records every command issued, in order, and
  the wall clock read by \<^verbatim>\<open>Date.now()\<close>, which advances by the duration of each command
  and of each timer.
\<close>

record response =
  r_ok :: bool
  r_stdout :: string
  r_took :: nat

record world =
  engine :: "nat \<Rightarrow> response"
  trace :: "string list"
  clock :: int

datatype error = ExecError string | Error string | TypeError

definition execSync :: "string \<Rightarrow> world \<Rightarrow> (error + string) \<times> world" where
  "execSync cmd w =
     (let r = engine w (length (trace w));
          w' = w\<lparr>trace := trace w @ [cmd], clock := clock w + int (r_took r)\<rparr>
      in (if r_ok r then Inr (r_stdout r) else Inl (ExecError cmd), w'))"

text \<open>\<^verbatim>\<open>await new Promise(resolve => setTimeout(resolve, ms))\<close>\<close>

definition sleep :: "int \<Rightarrow> world \<Rightarrow> world" where
  "sleep ms w = w\<lparr>clock := clock w + ms\<rparr>"

text \<open>\<^verbatim>\<open>for (let i = 0; i < n; i++) body\<close>, the body acting on the loop's state.\<close>

definition for_upto :: "nat \<Rightarrow> (nat \<Rightarrow> 's \<Rightarrow> 's) \<Rightarrow> 's \<Rightarrow> 's" where
  "for_upto n body s = fold body [0..<n] s"

definition dquote :: string where
  "dquote = [CHR 0x22]"

definition backslash :: string where
  "backslash = [CHR 0x5C]"

section \<open>The performance report (src/lib/docker-performance.js)\<close>

text \<open>
  The objects returned by the probes. \<open>m_samples\<close> is \<open>None\<close> where the object
  literal has no \<^verbatim>\<open>samples\<close> property (reading it gives \<^verbatim>\<open>undefined\<close>).
\<close>

record metric =
  m_average :: int
  m_min :: int
  m_max :: int
  m_unit :: string
  m_samples :: "nat option"

record memoryUsage =
  mem_current :: string
  mem_total :: string
  mem_percentage :: number
  mem_efficiency :: string

record cpuUsage =
  cpu_average :: number
  cpu_max :: number
  cpu_samples :: nat
  cpu_efficiency :: string

record pingResult =
  ping_target :: string
  ping_avgTime :: number

record networkLatency =
  net_average :: number
  net_targets :: "pingResult list"
  net_unit :: string
  net_status :: string

record diskTest =
  dt_speed :: number
  dt_unit :: string
  dt_status :: string

record diskIO =
  disk_write :: diskTest
  disk_read :: diskTest
  disk_overall :: string

record recommendation =
  category :: string
  priority :: string
  message :: string

record performance =
  image :: string
  buildTime :: metric
  startupTime :: metric
  memoryUsage :: memoryUsage
  cpuUsage :: cpuUsage
  networkLatency :: networkLatency
  diskIO :: diskIO
  recommendations :: "recommendation list"

subsection \<open>parseMemorySize, formatMemorySize, calculateMemoryEfficiency (lines 227-254)\<close>

text \<open>
  \<^verbatim>\<open>const [size, unit] = sizeStr.match(...) || []\<close> binds \<^verbatim>\<open>size\<close> (here \<open>sz\<close>) to element 0 of the
  match array (the whole match) and \<open>unit\<close> to element 1 (the first group).
\<close>

definition memory_units :: "(string \<times> nat) list" where
  "memory_units = [(''B'', 0), (''KiB'', 1), (''MiB'', 1), (''GiB'', 2), (''TiB'', 3)]"

definition parseMemorySize :: "string \<Rightarrow> number" where
  "parseMemorySize sizeStr =
     (let m = size_match [''B'', ''KiB'', ''MiB'', ''GiB'', ''TiB''] sizeStr;
          sz = (case m of None \<Rightarrow> None | Some (whole, g1, g2) \<Rightarrow> Some whole);
          unit = (case m of None \<Rightarrow> None | Some (whole, g1, g2) \<Rightarrow> Some g1)
      in num_mul (parseFloat_opt sz) (Math_pow 1024 (unit_exponent memory_units unit)))"

function format_loop :: "number \<Rightarrow> nat \<Rightarrow> number \<times> nat" where
  "format_loop sz unitIndex =
     (if num_ge sz 1024 \<and> unitIndex < 4 - 1
      then format_loop (num_div sz (Fin 1024)) (unitIndex + 1)
      else (sz, unitIndex))"
  by pat_completeness auto
termination
  by (relation "measure (\<lambda>(sz, unitIndex). 3 - unitIndex)") auto

declare format_loop.simps [simp del]

definition formatMemorySize :: "number \<Rightarrow> string" where
  "formatMemorySize bytes =
     (case format_loop bytes 0 of
        (sz, unitIndex) \<Rightarrow>
          number_to_string (num_div (num_round (num_mul sz (Fin 100))) (Fin 100))
          @ '' '' @ [''B'', ''KiB'', ''MiB'', ''GiB''] ! unitIndex)"

definition calculateMemoryEfficiency :: "number \<Rightarrow> number \<Rightarrow> string" where
  "calculateMemoryEfficiency current totl =
     (if totl = Fin 0 then ''Unknown''
      else
        let efficiency = num_mul (num_div current totl) (Fin 100)
        in if num_lt efficiency 10 then ''Excellent''
           else if num_lt efficiency 25 then ''Good''
           else if num_lt efficiency 50 then ''Fair''
           else ''Poor'')"

subsection \<open>measureBuildTime (lines 66-102)\<close>

definition imageName :: string where
  "imageName = ''trouter-perf-test''"

text \<open>One iteration of the loop: the state is the array \<^verbatim>\<open>times\<close> (here \<open>tms\<close>) and the world.\<close>

definition build_iteration :: "nat \<Rightarrow> int list \<times> world \<Rightarrow> int list \<times> world" where
  "build_iteration i s =
     (case s of (tms, w) \<Rightarrow>
        let startTime = clock w in
        (case execSync (''docker build --no-cache -t '' @ imageName @ ''-build-test .'') w of
           (Inl e, w1) \<Rightarrow> (tms, w1)
         | (Inr out, w1) \<Rightarrow>
             let buildTime = clock w1 - startTime;
                 tms' = tms @ [buildTime]
             in (tms', snd (execSync (''docker rmi -f '' @ imageName @ ''-build-test'') w1))))"

definition measureBuildTime :: "world \<Rightarrow> metric \<times> world" where
  "measureBuildTime w =
     (case for_upto 3 build_iteration ([], w) of
        (tms, w') \<Rightarrow>
          (case tms of
             [] \<Rightarrow> (\<lparr>m_average = 0, m_min = 0, m_max = 0, m_unit = ''ms'', m_samples = None\<rparr>, w')
           | t # ts \<Rightarrow>
               (\<lparr>m_average = Math_round (real_of_int (foldl (+) 0 tms) / real (length tms)),
                 m_min = fold min ts t,
                 m_max = fold max ts t,
                 m_unit = ''ms'',
                 m_samples = Some (length tms)\<rparr>, w')))"

subsection \<open>waitForContainer (lines 148-183)\<close>

definition inspect_cmd :: "string \<Rightarrow> string \<Rightarrow> string" where
  "inspect_cmd field containerId =
     ''docker inspect --format='{{.State.'' @ field @ ''}}' '' @ containerId"

function wait_loop :: "string \<Rightarrow> int \<Rightarrow> int \<Rightarrow> world \<Rightarrow> (error + bool) \<times> world" where
  "wait_loop containerId timeout startTime w =
     (if clock w - startTime < timeout then
        (let a = execSync (inspect_cmd ''Status'' containerId) w in
         case fst a of
           Inl e \<Rightarrow> (Inl (Error ''Container failed to start''), snd a)
         | Inr status \<Rightarrow>
             if trim status = ''running'' then
               (let b = execSync (inspect_cmd ''Health.Status'' containerId) (snd a) in
                case fst b of
                  Inl e \<Rightarrow> (Inr True, snd b)
                | Inr health \<Rightarrow>
                    if trim health = ''healthy'' \<or> trim health = ''none'' then (Inr True, snd b)
                    else wait_loop containerId timeout startTime (sleep 500 (snd b)))
             else wait_loop containerId timeout startTime (sleep 500 (snd a)))
      else (Inl (Error ''Container startup timeout''), w))"
  by pat_completeness auto
termination
  by (relation "measure (\<lambda>(containerId, timeout, startTime, w). nat (startTime + timeout - clock w))")
     (auto simp: execSync_def sleep_def Let_def)

declare wait_loop.simps [simp del]

definition waitForContainer :: "string \<Rightarrow> int \<Rightarrow> world \<Rightarrow> (error + bool) \<times> world" where
  "waitForContainer containerId timeout w = wait_loop containerId timeout (clock w) w"

subsection \<open>measureStartupTime (lines 104-146)\<close>

definition startup_iteration :: "string \<Rightarrow> nat \<Rightarrow> int list \<times> world \<Rightarrow> int list \<times> world" where
  "startup_iteration imageTag i s =
     (case s of (tms, w) \<Rightarrow>
        let startTime = clock w in
        (case execSync (''docker run -d --name '' @ imageName @ ''-startup-test-'' @ show_nat i
                        @ '' '' @ imageTag) w of
           (Inl e, w1) \<Rightarrow> (tms, w1)
         | (Inr out, w1) \<Rightarrow>
             let containerId = trim out in
             (case waitForContainer containerId 30000 w1 of
                (Inl e, w2) \<Rightarrow> (tms, w2)
              | (Inr ready, w2) \<Rightarrow>
                  let startupTime = clock w2 - startTime;
                      tms' = tms @ [startupTime]
                  in (case execSync (''docker stop '' @ containerId) w2 of
                        (Inl e, w3) \<Rightarrow> (tms', w3)
                      | (Inr o3, w3) \<Rightarrow> (tms', snd (execSync (''docker rm '' @ containerId) w3))))))"

definition measureStartupTime :: "string \<Rightarrow> world \<Rightarrow> metric \<times> world" where
  "measureStartupTime imageTag w =
     (case for_upto 5 (startup_iteration imageTag) ([], w) of
        (tms, w') \<Rightarrow>
          (case tms of
             [] \<Rightarrow> (\<lparr>m_average = 0, m_min = 0, m_max = 0, m_unit = ''ms'', m_samples = None\<rparr>, w')
           | t # ts \<Rightarrow>
               (\<lparr>m_average = Math_round (real_of_int (foldl (+) 0 tms) / real (length tms)),
                 m_min = fold min ts t,
                 m_max = fold max ts t,
                 m_unit = ''ms'',
                 m_samples = Some (length tms)\<rparr>, w')))"

subsection \<open>measureMemoryUsage (lines 185-225)\<close>

definition memory_unknown :: memoryUsage where
  "memory_unknown =
     \<lparr>mem_current = ''Unknown'', mem_total = ''Unknown'', mem_percentage = Fin 0,
      mem_efficiency = ''Unknown''\<rparr>"

definition stats_cmd :: "string \<Rightarrow> string" where
  "stats_cmd containerId =
     ''docker stats '' @ containerId @ '' --no-stream --format '' @ dquote @ ''{{.MemUsage}}''
     @ backslash @ ''t{{.MemPerc}}'' @ dquote"

text \<open>
  The lines between the stats command and the cleanup: \<^verbatim>\<open>memUsage\<close> is element 0 of
  the split (always there), \<^verbatim>\<open>memPercent\<close> element 1 or \<^verbatim>\<open>undefined\<close>;
  \<^verbatim>\<open>current\<close> and \<^verbatim>\<open>total\<close> are elements 0 and 1 of the parsed halves.
\<close>

definition memory_result :: "string \<Rightarrow> error + memoryUsage" where
  "memory_result stats =
     (let parts = split (CHR 0x09) stats;
          memUsage = hd parts;
          memPercent = nth_opt parts 1;
          sizes = map parseMemorySize (split (CHR ''/'') memUsage);
          current = to_number (nth_opt sizes 0);
          totl = to_number (nth_opt sizes 1)
      in (case memPercent of
            None \<Rightarrow> Inl TypeError
          | Some mp \<Rightarrow>
              Inr \<lparr>mem_current = formatMemorySize current,
                   mem_total = formatMemorySize totl,
                   mem_percentage = parseFloat (remove_first (CHR ''%'') mp),
                   mem_efficiency = calculateMemoryEfficiency current totl\<rparr>))"

definition measureMemoryUsage :: "string \<Rightarrow> world \<Rightarrow> memoryUsage \<times> world" where
  "measureMemoryUsage imageTag w =
     (case execSync (''docker run -d --name '' @ imageName @ ''-memory-test '' @ imageTag) w of
        (Inl e, w1) \<Rightarrow> (memory_unknown, w1)
      | (Inr out, w1) \<Rightarrow>
          let containerId = trim out;
              w2 = sleep 5000 w1
          in (case execSync (stats_cmd containerId) w2 of
                (Inl e, w3) \<Rightarrow> (memory_unknown, w3)
              | (Inr out3, w3) \<Rightarrow>
                  let stats = trim out3 in
                  (case execSync (''docker stop '' @ containerId) w3 of
                     (Inl e, w4) \<Rightarrow> (memory_unknown, w4)
                   | (Inr o4, w4) \<Rightarrow>
                       (case execSync (''docker rm '' @ containerId) w4 of
                          (Inl e, w5) \<Rightarrow> (memory_unknown, w5)
                        | (Inr o5, w5) \<Rightarrow>
                            (case memory_result stats of
                               Inl e \<Rightarrow> (memory_unknown, w5)
                             | Inr res \<Rightarrow> (res, w5))))))"

subsection \<open>generateRecommendations (lines 485-543)\<close>

text \<open>\<^verbatim>\<open>recommendations.push(r)\<close> under a condition, on the array built so far.\<close>

definition push_if :: "bool \<Rightarrow> 'a \<Rightarrow> 'a list \<Rightarrow> 'a list" where
  "push_if c r rs = (if c then rs @ [r] else rs)"

definition generateRecommendations :: "performance \<Rightarrow> recommendation list" where
  "generateRecommendations p =
    (let recs = [];
         recs = push_if (m_average (buildTime p) > 60000)
           \<lparr>category = ''Build'', priority = ''High'',
            message = ''Build time is slow. Consider using Docker layer caching and multi-stage builds.''\<rparr> recs;
         recs = push_if (m_average (startupTime p) > 10000)
           \<lparr>category = ''Startup'', priority = ''High'',
            message = ''Startup time is slow. Optimize application initialization and consider health checks.''\<rparr> recs;
         recs = push_if (num_gt (mem_percentage (memoryUsage p)) 80)
           \<lparr>category = ''Memory'', priority = ''High'',
            message = ''Memory usage is high. Profile memory leaks and optimize memory usage.''\<rparr> recs;
         recs = push_if (num_gt (cpu_average (cpuUsage p)) 50)
           \<lparr>category = ''CPU'', priority = ''Medium'',
            message = ''CPU usage is high. Consider optimizing algorithms and reducing computational overhead.''\<rparr> recs;
         recs = push_if (net_status (networkLatency p) = ''Success''
                         \<and> num_gt (net_average (networkLatency p)) 100)
           \<lparr>category = ''Network'', priority = ''Low'',
            message = ''Network latency is higher than expected. Check network configuration.''\<rparr> recs;
         recs = push_if (disk_overall (diskIO p) = ''Poor'')
           \<lparr>category = ''Disk'', priority = ''Medium'',
            message = ''Disk I/O performance is poor. Consider optimizing file operations and using faster storage.''\<rparr> recs
     in recs)"

text \<open>The category and priority of a recommendation, and the rows of the threshold table.\<close>

definition rec_key :: "recommendation \<Rightarrow> string \<times> string" where
  "rec_key r = (category r, priority r)"

definition row :: "bool \<Rightarrow> string \<Rightarrow> string \<Rightarrow> (string \<times> string) list" where
  "row c cat pri = (if c then [(cat, pri)] else [])"

text \<open>
  A report whose metrics are all nominal except for an average build time of 65000 ms.
\<close>

definition slow_build_report :: performance where
  "slow_build_report =
    \<lparr>image = ''app:latest'',
     buildTime = \<lparr>m_average = 65000, m_min = 64000, m_max = 66000, m_unit = ''ms'', m_samples = Some 3\<rparr>,
     startupTime = \<lparr>m_average = 800, m_min = 700, m_max = 900, m_unit = ''ms'', m_samples = Some 5\<rparr>,
     memoryUsage = \<lparr>mem_current = ''128 MiB'', mem_total = ''2 GiB'', mem_percentage = Fin 6,
                    mem_efficiency = ''Excellent''\<rparr>,
     cpuUsage = \<lparr>cpu_average = Fin 2, cpu_max = Fin 4, cpu_samples = 10, cpu_efficiency = ''Excellent''\<rparr>,
     networkLatency = \<lparr>net_average = Fin 20, net_targets = [], net_unit = ''ms'', net_status = ''Success''\<rparr>,
     diskIO = \<lparr>disk_write = \<lparr>dt_speed = Fin 200, dt_unit = ''MB/s'', dt_status = ''Success''\<rparr>,
               disk_read = \<lparr>dt_speed = Fin 300, dt_unit = ''MB/s'', dt_status = ''Success''\<rparr>,
               disk_overall = ''Excellent''\<rparr>,
     recommendations = []\<rparr>"

subsection \<open>The samples collected by the two timing loops\<close>

text \<open>The array \<^verbatim>\<open>times\<close> when the loop of measureBuildTime ends.\<close>

definition build_samples :: "world \<Rightarrow> int list" where
  "build_samples w = fst (for_upto 3 build_iteration ([], w))"

text \<open>The array \<^verbatim>\<open>times\<close> when the loop of measureStartupTime ends.\<close>

definition startup_samples :: "string \<Rightarrow> world \<Rightarrow> int list" where
  "startup_samples imageTag w = fst (for_upto 5 (startup_iteration imageTag) ([], w))"

text \<open>The arithmetic mean of a non-empty list of samples, as the specification words it.\<close>

definition arithmetic_mean :: "int list \<Rightarrow> real" where
  "arithmetic_mean xs = real_of_int (sum_list xs) / real (length xs)"

section \<open>Concrete engines\<close>

text \<open>
  Three builds that take 12000, 14500 and 13200 ms; each image removal takes 300 ms.
\<close>

definition build_scenario_world :: world where
  "build_scenario_world =
     \<lparr>engine = (\<lambda>n. \<lparr>r_ok = True, r_stdout = [],
                       r_took = (if n = 0 then 12000 else if n = 2 then 14500
                                 else if n = 4 then 13200 else 300)\<rparr>),
      trace = [], clock = 0\<rparr>"

text \<open>
  Every command succeeds in 200 ms; the status inspection (the second command of each
  iteration) prints \<^verbatim>\<open>running\<close>, the health inspection \<^verbatim>\<open>healthy\<close>.
\<close>

definition startup_scenario_world :: world where
  "startup_scenario_world =
     \<lparr>engine = (\<lambda>n. \<lparr>r_ok = True,
                       r_stdout = (if n mod 5 = 1 then ''running'' else ''healthy''),
                       r_took = 200\<rparr>),
      trace = [], clock = 0\<rparr>"

text \<open>
  The two inspections of one poll iteration of waitForContainer: the state inspection, and
  the health inspection that follows it.
\<close>

abbreviation status_poll :: "string \<Rightarrow> world \<Rightarrow> (error + string) \<times> world" where
  "status_poll containerId w \<equiv> execSync (inspect_cmd ''Status'' containerId) w"

abbreviation health_poll :: "string \<Rightarrow> world \<Rightarrow> (error + string) \<times> world" where
  "health_poll containerId w \<equiv>
     execSync (inspect_cmd ''Health.Status'' containerId) (snd (status_poll containerId w))"

text \<open>
  A container that runs and has no health check (the health inspection fails); one that
  runs and is healthy; one that stays in state \<^verbatim>\<open>created\<close>; one whose inspection fails.
\<close>

definition ready_world :: world where
  "ready_world =
     \<lparr>engine = (\<lambda>n. \<lparr>r_ok = (n = 0), r_stdout = ''running'' @ [CHR 0x0A], r_took = 30\<rparr>),
      trace = [], clock = 1000\<rparr>"

definition healthy_world :: world where
  "healthy_world =
     \<lparr>engine = (\<lambda>n. \<lparr>r_ok = True,
                       r_stdout = (if n = 0 then ''running'' else ''healthy'') @ [CHR 0x0A],
                       r_took = 30\<rparr>),
      trace = [], clock = 1000\<rparr>"

definition starting_world :: world where
  "starting_world =
     \<lparr>engine = (\<lambda>n. \<lparr>r_ok = True, r_stdout = ''created'' @ [CHR 0x0A], r_took = 100\<rparr>),
      trace = [], clock = 1000\<rparr>"

definition crashed_world :: world where
  "crashed_world =
     \<lparr>engine = (\<lambda>n. \<lparr>r_ok = False, r_stdout = [], r_took = 30\<rparr>),
      trace = [], clock = 1000\<rparr>"

text \<open>
  The engine of the memory scenario: the container starts, and the stats command prints
  \<^verbatim>\<open>128MiB / 2GiB\<close>, a tab and \<^verbatim>\<open>6.00%\<close>.
\<close>

definition memory_scenario_world :: world where
  "memory_scenario_world =
     \<lparr>engine = (\<lambda>n. \<lparr>r_ok = True,
                       r_stdout = (if n = 1 then ''128MiB / 2GiB'' @ [CHR 0x09] @ ''6.00%'' @ [CHR 0x0A]
                                   else ''4f2a9c'' @ [CHR 0x0A]),
                       r_took = 40\<rparr>),
      trace = [], clock = 0\<rparr>"

text \<open>An engine on which every command fails.\<close>

definition failing_world :: world where
  "failing_world = \<lparr>engine = (\<lambda>n. \<lparr>r_ok = False, r_stdout = [], r_took = 10\<rparr>), trace = [], clock = 0\<rparr>"

text \<open>An engine on which the first command (the container start) succeeds and the rest fail.\<close>

definition started_then_failing_world :: world where
  "started_then_failing_world =
     \<lparr>engine = (\<lambda>n. \<lparr>r_ok = (n = 0), r_stdout = ''4f2a9c'' @ [CHR 0x0A], r_took = 10\<rparr>),
      trace = [], clock = 0\<rparr>"

section \<open>The two pipelines (testPerformance lines 12-64, scanImage part_001 lines 13-61)\<close>

text \<open>
  An awaited call either returns a value or throws, and changes the world.
  \<open>await m f\<close> runs \<open>m\<close> and continues with \<open>f\<close> on its value; a throw ends the
  sequence. \<open>returns\<close> lifts a function that cannot throw.
\<close>

type_synonym 'a action = "world \<Rightarrow> (error + 'a) \<times> world"

definition await :: "'a action \<Rightarrow> ('a \<Rightarrow> 'b action) \<Rightarrow> 'b action" where
  "await m f w = (case m w of (Inl e, w') \<Rightarrow> (Inl e, w') | (Inr a, w') \<Rightarrow> f a w')"

definition return :: "'a \<Rightarrow> 'a action" where
  "return a w = (Inr a, w)"

definition returns :: "(world \<Rightarrow> 'a \<times> world) \<Rightarrow> 'a action" where
  "returns g w = (case g w of (a, w') \<Rightarrow> (Inr a, w'))"

text \<open>\<^verbatim>\<open>!imageTag\<close>: \<^verbatim>\<open>null\<close> (\<open>None\<close>) and the empty string are falsy.\<close>

definition falsy :: "string option \<Rightarrow> bool" where
  "falsy imageTag = (case imageTag of None \<Rightarrow> True | Some t \<Rightarrow> t = [])"

text \<open>\<^verbatim>\<open>`${Date.now()}`\<close>\<close>

definition show_int :: "int \<Rightarrow> string" where
  "show_int i = (if i < 0 then ''-'' @ show_nat (nat (- i)) else show_nat (nat i))"

text \<open>\<^verbatim>\<open>error.message\<close> of a failed command (the captured error output is not modelled).\<close>

definition error_message :: "error \<Rightarrow> string" where
  "error_message e =
     (case e of ExecError cmd \<Rightarrow> ''Command failed: '' @ cmd | Error m \<Rightarrow> m | TypeError \<Rightarrow> ''TypeError'')"

text \<open>buildTempImage, the same in both classes but for \<^verbatim>\<open>this.imageName\<close>.\<close>

definition buildTempImage :: "string \<Rightarrow> string action" where
  "buildTempImage name w =
     (let tempTag = name @ ''-'' @ show_int (clock w) in
      case execSync (''docker build -t '' @ tempTag @ '' .'') w of
        (Inl e, w') \<Rightarrow> (Inl (Error (''Failed to build Docker image: '' @ error_message e)), w')
      | (Inr out, w') \<Rightarrow> (Inr tempTag, w'))"

text \<open>cleanupTempImage: the try block around the removal, and its empty catch block.\<close>

definition cleanupTempImage :: "string \<Rightarrow> unit action" where
  "cleanupTempImage imageTag w =
     (case execSync (''docker rmi -f '' @ imageTag) w of
        (Inl e, w') \<Rightarrow> (Inr (), w')
      | (Inr out, w') \<Rightarrow> (Inr (), w'))"

text \<open>\<^verbatim>\<open>imageTag || await this.buildTempImage()\<close>\<close>

definition acquire_image :: "string \<Rightarrow> string option \<Rightarrow> string action" where
  "acquire_image name imageTag w =
     (case imageTag of
        None \<Rightarrow> buildTempImage name w
      | Some t \<Rightarrow> if t = [] then buildTempImage name w else (Inr t, w))"

text \<open>
  The body of the try block and the catch block, shared by both pipelines: \<open>body\<close> is
  the construction of the report, then the image is released if the pipeline built it. In
  the catch block the release comes first and the caught error is thrown again.
\<close>

definition try_release :: "string option \<Rightarrow> string \<Rightarrow> 'r action \<Rightarrow> 'r action" where
  "try_release imageTag img body w =
     (case await body (\<lambda>report.
             if falsy imageTag then await (cleanupTempImage img) (\<lambda>u. return report)
             else return report) w of
        (Inr report, w') \<Rightarrow> (Inr report, w')
      | (Inl err, w') \<Rightarrow>
          if falsy imageTag
          then (case cleanupTempImage img w' of
                  (Inl e2, w'') \<Rightarrow> (Inl e2, w'')
                | (Inr u, w'') \<Rightarrow> (Inl err, w''))
          else (Inl err, w'))"

text \<open>
  The six probes of testPerformance are parameters: each is an awaited call that may
  return its result or throw.
\<close>

record perf_probes =
  p_measureBuildTime :: "metric action"
  p_measureStartupTime :: "string \<Rightarrow> metric action"
  p_measureMemoryUsage :: "string \<Rightarrow> memoryUsage action"
  p_measureCPUUsage :: "string \<Rightarrow> cpuUsage action"
  p_measureNetworkLatency :: "string \<Rightarrow> networkLatency action"
  p_measureDiskIO :: "string \<Rightarrow> diskIO action"

definition performance_report :: "perf_probes \<Rightarrow> string \<Rightarrow> performance action" where
  "performance_report P imageToTest =
     await (p_measureBuildTime P) (\<lambda>bt.
     await (p_measureStartupTime P imageToTest) (\<lambda>st.
     await (p_measureMemoryUsage P imageToTest) (\<lambda>mu.
     await (p_measureCPUUsage P imageToTest) (\<lambda>cu.
     await (p_measureNetworkLatency P imageToTest) (\<lambda>nl.
     await (p_measureDiskIO P imageToTest) (\<lambda>dio.
       let performance =
             \<lparr>image = imageToTest, buildTime = bt, startupTime = st, memoryUsage = mu,
              cpuUsage = cu, networkLatency = nl, diskIO = dio, recommendations = []\<rparr>
       in return (performance\<lparr>recommendations := generateRecommendations performance\<rparr>)))))))"

definition testPerformance :: "perf_probes \<Rightarrow> string option \<Rightarrow> performance action" where
  "testPerformance P imageTag =
     await (acquire_image imageName imageTag) (\<lambda>imageToTest.
       try_release imageTag imageToTest (performance_report P imageToTest))"

text \<open>The scan report and the five probes of scanImage, parameters in the same way.\<close>

record ('v, 'l, 's, 'p) scan =
  scan_image :: string
  scan_vulnerabilities :: 'v
  scan_size :: string
  scan_layers :: 'l
  scan_secrets :: 's
  scan_permissions :: 'p

record ('v, 'l, 's, 'p) scan_probes =
  p_scanVulnerabilities :: "string \<Rightarrow> 'v action"
  p_getImageSize :: "string \<Rightarrow> string action"
  p_analyzeLayers :: "string \<Rightarrow> 'l action"
  p_scanSecrets :: "string \<Rightarrow> 's action"
  p_analyzePermissions :: "string \<Rightarrow> 'p action"

definition scan_report :: "('v, 'l, 's, 'p) scan_probes \<Rightarrow> string \<Rightarrow> ('v, 'l, 's, 'p) scan action" where
  "scan_report P imageToScan =
     await (p_scanVulnerabilities P imageToScan) (\<lambda>v.
     await (p_getImageSize P imageToScan) (\<lambda>sz.
     await (p_analyzeLayers P imageToScan) (\<lambda>l.
     await (p_scanSecrets P imageToScan) (\<lambda>s.
     await (p_analyzePermissions P imageToScan) (\<lambda>p.
       return \<lparr>scan_image = imageToScan, scan_vulnerabilities = v, scan_size = sz,
               scan_layers = l, scan_secrets = s, scan_permissions = p\<rparr>)))))"

definition scanImage :: "('v, 'l, 's, 'p) scan_probes \<Rightarrow> string option \<Rightarrow> ('v, 'l, 's, 'p) scan action" where
  "scanImage P imageTag =
     await (acquire_image ''trouter-temp-scan'' imageTag) (\<lambda>imageToScan.
       try_release imageTag imageToScan (scan_report P imageToScan))"

text \<open>Probes that throw at once, and scan probes that return at once, for concrete runs.\<close>

definition throwing_probes :: perf_probes where
  "throwing_probes =
     \<lparr>p_measureBuildTime = (\<lambda>w. (Inl (Error ''probe failed''), w)),
      p_measureStartupTime = (\<lambda>img w. (Inl (Error ''probe failed''), w)),
      p_measureMemoryUsage = (\<lambda>img w. (Inl (Error ''probe failed''), w)),
      p_measureCPUUsage = (\<lambda>img w. (Inl (Error ''probe failed''), w)),
      p_measureNetworkLatency = (\<lambda>img w. (Inl (Error ''probe failed''), w)),
      p_measureDiskIO = (\<lambda>img w. (Inl (Error ''probe failed''), w))\<rparr>"

definition silent_probes :: "(unit, unit, unit, unit) scan_probes" where
  "silent_probes =
     \<lparr>p_scanVulnerabilities = (\<lambda>img. return ()),
      p_getImageSize = (\<lambda>img. return ''5MB''),
      p_analyzeLayers = (\<lambda>img. return ()),
      p_scanSecrets = (\<lambda>img. return ()),
      p_analyzePermissions = (\<lambda>img. return ())\<rparr>"

section \<open>The vulnerability report (part_001 lines 127-156, 304-352)\<close>

text \<open>
  A finding as the scanner stores it. A property that is \<^verbatim>\<open>undefined\<close>, or is not a
  string, is \<open>None\<close>.
\<close>

record vuln =
  v_package :: "string option"
  v_version :: "string option"
  v_severity :: "string option"
  v_description :: "string option"
  v_fix :: "string option"

record vulnerabilities =
  vr_critical :: "vuln list"
  vr_high :: "vuln list"
  vr_medium :: "vuln list"
  vr_low :: "vuln list"
  vr_info :: "vuln list"
  vr_total :: nat

definition no_vulnerabilities :: vulnerabilities where
  "no_vulnerabilities =
     \<lparr>vr_critical = [], vr_high = [], vr_medium = [], vr_low = [], vr_info = [], vr_total = 0\<rparr>"

text \<open>\<^verbatim>\<open>s.toLowerCase()\<close> on the letters A to Z (strings are modelled as bytes).\<close>

definition lower_char :: "char \<Rightarrow> char" where
  "lower_char c =
     (case map_of (zip ''ABCDEFGHIJKLMNOPQRSTUVWXYZ'' ''abcdefghijklmnopqrstuvwxyz'') c of
        None \<Rightarrow> c
      | Some l \<Rightarrow> l)"

definition toLowerCase :: "string \<Rightarrow> string" where
  "toLowerCase s = map lower_char s"

definition tiers :: "string list" where
  "tiers = [''critical'', ''high'', ''medium'', ''low'', ''info'']"

text \<open>categorizeVulnerability (\<open>categ\<close> is the variable \<^verbatim>\<open>category\<close>): \<^verbatim>\<open>severity.toLowerCase()\<close> throws when there is no string.\<close>

definition categorizeVulnerability :: "string option \<Rightarrow> error + string" where
  "categorizeVulnerability severity =
     (case severity of
        None \<Rightarrow> Inl TypeError
      | Some s \<Rightarrow>
          let categ = toLowerCase s
          in if categ \<in> set tiers then Inr categ else Inr ''info'')"

text \<open>
  \<^verbatim>\<open>vulnerabilities[category].push(v)\<close>: a property that is no array (\<^verbatim>\<open>total\<close>, or
  a missing one) has no \<^verbatim>\<open>push\<close>.
\<close>

definition push_bucket :: "string \<Rightarrow> vuln \<Rightarrow> vulnerabilities \<Rightarrow> error + vulnerabilities" where
  "push_bucket categ v r =
     (if categ = ''critical'' then Inr (r\<lparr>vr_critical := vr_critical r @ [v]\<rparr>)
      else if categ = ''high'' then Inr (r\<lparr>vr_high := vr_high r @ [v]\<rparr>)
      else if categ = ''medium'' then Inr (r\<lparr>vr_medium := vr_medium r @ [v]\<rparr>)
      else if categ = ''low'' then Inr (r\<lparr>vr_low := vr_low r @ [v]\<rparr>)
      else if categ = ''info'' then Inr (r\<lparr>vr_info := vr_info r @ [v]\<rparr>)
      else Inl TypeError)"

text \<open>
  \<^verbatim>\<open>xs.forEach(f)\<close> where the callback changes a state and may throw: the throw ends
  the loop and leaves the state as it was changed so far.
\<close>

fun for_each :: "('a \<Rightarrow> 's \<Rightarrow> error + 's) \<Rightarrow> 'a list \<Rightarrow> 's \<Rightarrow> error option \<times> 's" where
  "for_each f [] s = (None, s)"
| "for_each f (x # xs) s =
     (case f x s of
        Inl e \<Rightarrow> (Some e, s)
      | Inr s' \<Rightarrow> for_each f xs s')"

text \<open>The callback of basicVulnerabilityScan: categorize, push, count.\<close>

definition add_vulnerability :: "vuln \<Rightarrow> vulnerabilities \<Rightarrow> error + vulnerabilities" where
  "add_vulnerability v r =
     (case categorizeVulnerability (v_severity v) of
        Inl e \<Rightarrow> Inl e
      | Inr categ \<Rightarrow>
          (case push_bucket categ v r of
             Inl e \<Rightarrow> Inl e
           | Inr r' \<Rightarrow> Inr (r'\<lparr>vr_total := vr_total r' + 1\<rparr>)))"

text \<open>
  basicVulnerabilityScan. Its two awaited helpers, getImageOS and
  checkCommonVulnerabilities, are parameters: each returns its value or throws. The catch
  block returns the report as filled so far.
\<close>

definition basicVulnerabilityScan ::
    "(string \<Rightarrow> 'os action) \<Rightarrow> (string \<Rightarrow> 'os \<Rightarrow> vuln list action) \<Rightarrow> string
      \<Rightarrow> world \<Rightarrow> vulnerabilities \<times> world" where
  "basicVulnerabilityScan getImageOS checkCommonVulnerabilities imageTag w =
     (case getImageOS imageTag w of
        (Inl e, w1) \<Rightarrow> (no_vulnerabilities, w1)
      | (Inr osInfo, w1) \<Rightarrow>
          (case checkCommonVulnerabilities imageTag osInfo w1 of
             (Inl e, w2) \<Rightarrow> (no_vulnerabilities, w2)
           | (Inr commonVulns, w2) \<Rightarrow>
               (snd (for_each add_vulnerability commonVulns no_vulnerabilities), w2)))"

text \<open>
  The parsed output of Trivy, as far as parseTrivyResults reads it: \<^verbatim>\<open>data.Results\<close>,
  and \<^verbatim>\<open>Vulnerabilities\<close> of its first element, each an array or absent.
\<close>

record trivy_vuln =
  PkgName :: "string option"
  InstalledVersion :: "string option"
  Severity :: "string option"
  Description :: "string option"
  FixedVersion :: "string option"

record trivy_result =
  Vulnerabilities :: "trivy_vuln list option"

record trivy_data =
  Results :: "trivy_result list option"

definition add_trivy_vulnerability :: "trivy_vuln \<Rightarrow> vulnerabilities \<Rightarrow> error + vulnerabilities" where
  "add_trivy_vulnerability tv r =
     (case categorizeVulnerability (Severity tv) of
        Inl e \<Rightarrow> Inl e
      | Inr categ \<Rightarrow>
          (case push_bucket categ
                  \<lparr>v_package = PkgName tv, v_version = InstalledVersion tv,
                   v_severity = Severity tv, v_description = Description tv,
                   v_fix = FixedVersion tv\<rparr> r of
             Inl e \<Rightarrow> Inl e
           | Inr r' \<Rightarrow> Inr (r'\<lparr>vr_total := vr_total r' + 1\<rparr>)))"

definition parseTrivyResults :: "trivy_data \<Rightarrow> error + vulnerabilities" where
  "parseTrivyResults data =
     (case Results data of
        None \<Rightarrow> Inr no_vulnerabilities
      | Some [] \<Rightarrow> Inr no_vulnerabilities
      | Some (r0 # rest) \<Rightarrow>
          (case Vulnerabilities r0 of
             None \<Rightarrow> Inr no_vulnerabilities
           | Some vs \<Rightarrow>
               (case for_each add_trivy_vulnerability vs no_vulnerabilities of
                  (Some e, r) \<Rightarrow> Inl e
                | (None, r) \<Rightarrow> Inr r)))"

text \<open>The number of findings held in the five buckets of a report.\<close>

definition bucketed :: "vulnerabilities \<Rightarrow> nat" where
  "bucketed r =
     length (vr_critical r) + length (vr_high r) + length (vr_medium r) + length (vr_low r)
     + length (vr_info r)"

text \<open>A Trivy output with the severities HIGH, UNKNOWN and Low, and two heuristic findings.\<close>

definition trivy_example :: trivy_data where
  "trivy_example =
     \<lparr>Results = Some [\<lparr>Vulnerabilities = Some
        [\<lparr>PkgName = Some ''openssl'', InstalledVersion = Some ''1.1.1'', Severity = Some ''HIGH'',
          Description = Some ''overflow'', FixedVersion = Some ''1.1.2''\<rparr>,
         \<lparr>PkgName = Some ''zlib'', InstalledVersion = Some ''1.2'', Severity = Some ''UNKNOWN'',
          Description = None, FixedVersion = None\<rparr>,
         \<lparr>PkgName = Some ''curl'', InstalledVersion = Some ''7.0'', Severity = Some ''Low'',
          Description = None, FixedVersion = None\<rparr>]\<rparr>]\<rparr>"

definition heuristic_findings :: "vuln list" where
  "heuristic_findings =
     [\<lparr>v_package = Some ''request'', v_version = Some ''2.88.0'', v_severity = Some ''high'',
       v_description = Some ''Deprecated and vulnerable'', v_fix = Some ''Update to latest version''\<rparr>,
      \<lparr>v_package = Some ''axios'', v_version = Some ''0.19.0'', v_severity = Some ''medium'',
       v_description = Some ''SSRF vulnerability'', v_fix = Some ''Update to latest version''\<rparr>]"

text \<open>The finding stored for an entry of the Trivy output.\<close>

definition trivy_finding :: "trivy_vuln \<Rightarrow> vuln" where
  "trivy_finding tv =
     \<lparr>v_package = PkgName tv, v_version = InstalledVersion tv, v_severity = Severity tv,
      v_description = Description tv, v_fix = FixedVersion tv\<rparr>"

definition unknown_finding :: vuln where
  "unknown_finding =
     \<lparr>v_package = Some ''zlib'', v_version = Some ''1.2'', v_severity = Some ''UNKNOWN'',
      v_description = None, v_fix = None\<rparr>"

section \<open>The secret scan (part_001 lines 398-480)\<close>

text \<open>
  An entry of a directory as \<^verbatim>\<open>fs.readdir\<close> with file types reports it: a regular file
  with its content (\<open>None\<close> when reading it fails), a directory with its entries
  (\<open>None\<close> when listing it fails), or something that is neither.
\<close>

datatype entry = File string "string option" | Dir string "entry list option" | Other string




subsection \<open>The secret patterns\<close>

text \<open>
  The keyword of a pattern: literal parts, matched without regard to case, and \<^verbatim>\<open>[_-]?\<close>
  between them. No literal part begins with a separator, so taking the separator when it
  is there is the only reading that can match.
\<close>

datatype kpart = Lit string | Sep

fun match_key :: "kpart list \<Rightarrow> string \<Rightarrow> string option" where
  "match_key [] s = Some s"
| "match_key (Lit l # ps) s =
     (if length l \<le> length s \<and> toLowerCase (take (length l) s) = l
      then match_key ps (drop (length l) s) else None)"
| "match_key (Sep # ps) s =
     (case s of
        [] \<Rightarrow> match_key ps []
      | c # cs \<Rightarrow> if c = CHR ''_'' \<or> c = CHR ''-'' then match_key ps cs else match_key ps s)"

definition value_char :: "char \<Rightarrow> bool" where
  "value_char c = (c \<noteq> CHR 0x27 \<and> c \<noteq> CHR 0x22 \<and> \<not> is_space c)"

text \<open>
  One match of \<^verbatim>\<open>keyword\s*[:=]\s*['"]?([^'"\s]+)\<close> at the start of a string: what
  follows the match, or \<open>None\<close>.
\<close>

definition match_secret_here :: "kpart list \<Rightarrow> string \<Rightarrow> string option" where
  "match_secret_here key s =
     (case match_key key s of
        None \<Rightarrow> None
      | Some r \<Rightarrow>
          (case dropWhile is_space r of
             [] \<Rightarrow> None
           | c # r2 \<Rightarrow>
               if c = CHR '':'' \<or> c = CHR ''='' then
                 (let r3 = dropWhile is_space r2;
                      r4 = (case r3 of
                              [] \<Rightarrow> []
                            | q # t \<Rightarrow> if q = CHR 0x27 \<or> q = CHR 0x22 then t else r3)
                  in if takeWhile value_char r4 = [] then None
                     else Some (dropWhile value_char r4))
               else None))"

text \<open>
  \<^verbatim>\<open>content.match(pattern)\<close> with the flags \<^verbatim>\<open>gi\<close>: the number of matches, found from
  left to right without overlap (0 stands for \<^verbatim>\<open>null\<close>). The first argument counts the
  characters still covered by the previous match.
\<close>

fun count_matches :: "kpart list \<Rightarrow> nat \<Rightarrow> string \<Rightarrow> nat" where
  "count_matches key k [] = 0"
| "count_matches key (Suc k) (c # cs) = count_matches key k cs"
| "count_matches key 0 (c # cs) =
     (case match_secret_here key (c # cs) of
        None \<Rightarrow> count_matches key 0 cs
      | Some rest \<Rightarrow> 1 + count_matches key (length cs - length rest) cs)"



subsection \<open>shouldScanFile\<close>




subsection \<open>scanDirectoryForSecrets\<close>



subsection \<open>scanSecrets\<close>

fun entry_name :: "entry \<Rightarrow> string" where
  "entry_name (File name content) = name"
| "entry_name (Dir name sub) = name"
| "entry_name (Other name) = name"









section \<open>Layer sizes (part_001 lines 367-396)\<close>




record layer =
  l_command :: string
  l_size :: string








section \<open>Verified properties\<close>

subsection \<open>Recommendation thresholds\<close>

lemma map_push_if: "map f (push_if c r rs) = map f rs @ (if c then [f r] else [])"
  by (simp add: push_if_def)

text \<open>
  C7. generateRecommendations is a function of the report alone, and the categories and
  priorities it emits are, in this order, exactly the rows of the threshold table whose
  condition holds: build average > 60000 gives (Build, High), startup average > 10000
  gives (Startup, High), memory percentage > 80 gives (Memory, High), CPU average > 50
  gives (CPU, Medium), network status Success with average latency > 100 gives
  (Network, Low), disk overall Poor gives (Disk, Medium). A report with an average build
  time of 65000 ms and nominal other metrics yields the single recommendation
  (Build, High).
\<close>

theorem generateRecommendations_threshold_table:
  "map rec_key (generateRecommendations p) =
     row (m_average (buildTime p) > 60000) ''Build'' ''High''
     @ row (m_average (startupTime p) > 10000) ''Startup'' ''High''
     @ row (num_gt (mem_percentage (memoryUsage p)) 80) ''Memory'' ''High''
     @ row (num_gt (cpu_average (cpuUsage p)) 50) ''CPU'' ''Medium''
     @ row (net_status (networkLatency p) = ''Success''
            \<and> num_gt (net_average (networkLatency p)) 100) ''Network'' ''Low''
     @ row (disk_overall (diskIO p) = ''Poor'') ''Disk'' ''Medium''
   \<and> map rec_key (generateRecommendations slow_build_report) = [(''Build'', ''High'')]"
  by (simp add: generateRecommendations_def Let_def map_push_if row_def rec_key_def
      slow_build_report_def)

subsection \<open>Aggregation of timing samples\<close>

lemma for_upto_3: "for_upto 3 f s = f 2 (f 1 (f 0 s))"
  by (simp add: for_upto_def upt_rec eval_nat_numeral)

lemma for_upto_5: "for_upto 5 f s = f 4 (f 3 (f 2 (f 1 (f 0 s))))"
  by (simp add: for_upto_def upt_rec eval_nat_numeral)

lemma foldl_plus_sum_list: "foldl (+) a xs = a + sum_list (xs :: int list)"
  by (induction xs arbitrary: a) simp_all

lemma sum_list_lower: "\<forall>x \<in> set xs. lo \<le> x \<Longrightarrow> lo * int (length xs) \<le> sum_list xs"
  by (induction xs) (auto simp: algebra_simps)

lemma sum_list_upper: "\<forall>x \<in> set xs. x \<le> hi \<Longrightarrow> sum_list xs \<le> hi * int (length xs)"
  by (induction xs) (auto simp: algebra_simps)

lemma mean_bounds:
  fixes xs :: "int list"
  assumes "xs \<noteq> []"
  shows "real_of_int (Min (set xs)) \<le> real_of_int (sum_list xs) / real (length xs)"
    and "real_of_int (sum_list xs) / real (length xs) \<le> real_of_int (Max (set xs))"
proof -
  have n: "0 < real (length xs)" using assms by simp
  have "Min (set xs) * int (length xs) \<le> sum_list xs"
    by (rule sum_list_lower) simp
  then have "real_of_int (Min (set xs) * int (length xs)) \<le> real_of_int (sum_list xs)"
    by (simp only: of_int_le_iff)
  then show "real_of_int (Min (set xs)) \<le> real_of_int (sum_list xs) / real (length xs)"
    using n by (simp add: pos_le_divide_eq)
  have "sum_list xs \<le> Max (set xs) * int (length xs)"
    by (rule sum_list_upper) simp
  then have "real_of_int (sum_list xs) \<le> real_of_int (Max (set xs) * int (length xs))"
    by (simp only: of_int_le_iff)
  then show "real_of_int (sum_list xs) / real (length xs) \<le> real_of_int (Max (set xs))"
    using n by (simp add: pos_divide_le_eq)
qed

lemma round_between:
  fixes lo hi :: int and x :: real
  assumes "real_of_int lo \<le> x" "x \<le> real_of_int hi"
  shows "lo \<le> Math_round x" and "Math_round x \<le> hi"
  using assms unfolding Math_round_def by linarith+

lemma round_nearest: "\<bar>real_of_int (Math_round x) - x\<bar> \<le> 1 / 2"
  unfolding Math_round_def by linarith

lemma loop_len_build: "length (fst (build_iteration i (tms, w))) \<le> Suc (length tms)"
  by (simp add: build_iteration_def Let_def split: prod.splits sum.splits)

lemma loop_len_startup: "length (fst (startup_iteration img i (tms, w))) \<le> Suc (length tms)"
  by (simp add: startup_iteration_def Let_def split: prod.splits sum.splits)

lemma build_samples_le: "length (build_samples w) \<le> 3"
proof -
  have step: "\<And>i s. length (fst (build_iteration i s)) \<le> Suc (length (fst s))"
    using loop_len_build by (metis prod.collapse)
  show ?thesis
    unfolding build_samples_def for_upto_3
    using step[of 2 "build_iteration 1 (build_iteration 0 ([], w))"]
      step[of 1 "build_iteration 0 ([], w)"] step[of 0 "([], w)"]
    by simp
qed

lemma startup_samples_le: "length (startup_samples img w) \<le> 5"
proof -
  let ?f = "startup_iteration img"
  have step: "\<And>i s. length (fst (?f i s)) \<le> Suc (length (fst s))"
    using loop_len_startup by (metis prod.collapse)
  show ?thesis
    unfolding startup_samples_def for_upto_5
    using step[of 4 "?f 3 (?f 2 (?f 1 (?f 0 ([], w))))"] step[of 3 "?f 2 (?f 1 (?f 0 ([], w)))"]
      step[of 2 "?f 1 (?f 0 ([], w))"]
      step[of 1 "?f 0 ([], w)"] step[of 0 "([], w)"]
    by simp
qed

lemma fold_min_Min: "fold min ts (t::int) = Min (insert t (set ts))"
  by (metis Min.set_eq_fold list.simps(15))

lemma fold_max_Max: "fold max ts (t::int) = Max (insert t (set ts))"
  by (metis Max.set_eq_fold list.simps(15))

lemma build_metric:
  "fst (measureBuildTime w) =
     (case build_samples w of
        [] \<Rightarrow> \<lparr>m_average = 0, m_min = 0, m_max = 0, m_unit = ''ms'', m_samples = None\<rparr>
      | t # ts \<Rightarrow>
          \<lparr>m_average = Math_round (real_of_int (sum_list (t # ts)) / real (length (t # ts))),
           m_min = Min (set (t # ts)), m_max = Max (set (t # ts)), m_unit = ''ms'',
           m_samples = Some (length (t # ts))\<rparr>)"
  by (simp add: measureBuildTime_def build_samples_def foldl_plus_sum_list fold_min_Min
      fold_max_Max split: prod.splits list.splits)

lemma startup_metric:
  "fst (measureStartupTime img w) =
     (case startup_samples img w of
        [] \<Rightarrow> \<lparr>m_average = 0, m_min = 0, m_max = 0, m_unit = ''ms'', m_samples = None\<rparr>
      | t # ts \<Rightarrow>
          \<lparr>m_average = Math_round (real_of_int (sum_list (t # ts)) / real (length (t # ts))),
           m_min = Min (set (t # ts)), m_max = Max (set (t # ts)), m_unit = ''ms'',
           m_samples = Some (length (t # ts))\<rparr>)"
  by (simp add: measureStartupTime_def startup_samples_def foldl_plus_sum_list fold_min_Min
      fold_max_Max split: prod.splits list.splits)

lemma mset_mean:
  fixes xs ys :: "int list"
  assumes "mset xs = mset ys"
  shows "real_of_int (sum_list xs) / real (length xs) = real_of_int (sum_list ys) / real (length ys)"
proof -
  have "sum_list xs = sum_list ys" using assms by (metis sum_mset_sum_list)
  moreover have "length xs = length ys" using assms by (metis size_mset)
  ultimately show ?thesis by simp
qed

lemma build_scenario_metric: "fst (measureBuildTime build_scenario_world) =
    \<lparr>m_average = 13233, m_min = 12000, m_max = 14500, m_unit = ''ms'', m_samples = Some 3\<rparr>"
  by (simp add: measureBuildTime_def for_upto_3 build_iteration_def execSync_def
      build_scenario_world_def Let_def Math_round_def)

lemma build_iteration_sample:
  "fst (build_iteration i (tms, w)) =
     (if r_ok (engine w (length (trace w)))
      then tms @ [int (r_took (engine w (length (trace w))))] else tms)"
  by (simp add: build_iteration_def execSync_def Let_def)

lemma startup_iteration_sample:
  "fst (startup_iteration img i (tms, w)) =
     (case execSync (''docker run -d --name '' @ imageName @ ''-startup-test-'' @ show_nat i
                     @ '' '' @ img) w of
        (Inl e, w1) \<Rightarrow> tms
      | (Inr out, w1) \<Rightarrow>
          (case waitForContainer (trim out) 30000 w1 of
             (Inl e, w2) \<Rightarrow> tms
           | (Inr ready, w2) \<Rightarrow> tms @ [clock w2 - clock w]))"
  by (simp add: startup_iteration_def Let_def split: prod.splits sum.splits)

lemma metric_props:
  fixes S :: "int list"
  assumes ne: "S \<noteq> []"
    and M: "M = (case S of
        [] \<Rightarrow> \<lparr>m_average = 0, m_min = 0, m_max = 0, m_unit = ''ms'', m_samples = None\<rparr>
      | t # ts \<Rightarrow>
          \<lparr>m_average = Math_round (real_of_int (sum_list (t # ts)) / real (length (t # ts))),
           m_min = Min (set (t # ts)), m_max = Max (set (t # ts)), m_unit = ''ms'',
           m_samples = Some (length (t # ts))\<rparr>)"
  shows "m_samples M = Some (length S)"
    and "m_average M = Math_round (arithmetic_mean S)"
    and "\<bar>real_of_int (m_average M) - arithmetic_mean S\<bar> \<le> 1 / 2"
    and "m_min M = Min (set S)" and "m_max M = Max (set S)"
    and "m_min M \<le> m_average M" and "m_average M \<le> m_max M"
proof -
  obtain t ts where S: "S = t # ts" using ne by (cases S) auto
  show 1: "m_samples M = Some (length S)" by (simp add: M S)
  show 2: "m_average M = Math_round (arithmetic_mean S)"
    by (simp add: M S arithmetic_mean_def)
  show "\<bar>real_of_int (m_average M) - arithmetic_mean S\<bar> \<le> 1 / 2"
    unfolding 2 by (rule round_nearest)
  show 4: "m_min M = Min (set S)" by (simp add: M S)
  show 5: "m_max M = Max (set S)" by (simp add: M S)
  show "m_min M \<le> m_average M"
    unfolding 2 4 arithmetic_mean_def
    by (rule round_between(1)[OF mean_bounds(1)[OF ne] mean_bounds(2)[OF ne]])
  show "m_average M \<le> m_max M"
    unfolding 2 5 arithmetic_mean_def
    by (rule round_between(2)[OF mean_bounds(1)[OF ne] mean_bounds(2)[OF ne]])
qed

lemma mset_arithmetic_mean:
  "mset xs = mset ys \<Longrightarrow> arithmetic_mean xs = arithmetic_mean ys"
  unfolding arithmetic_mean_def by (rule mset_mean)

lemma build_samples_scenario: "build_samples build_scenario_world = [12000, 14500, 13200]"
  by (simp add: build_samples_def for_upto_3 build_iteration_def execSync_def
      build_scenario_world_def Let_def)

lemma startup_samples_scenario: "startup_samples ''app'' startup_scenario_world = [600, 600, 600, 600, 600]"
  by (simp add: startup_samples_def for_upto_5 startup_iteration_def execSync_def
      startup_scenario_world_def Let_def waitForContainer_def wait_loop.simps trim_def is_space_def
      inspect_cmd_def sleep_def)

text \<open>
  C4. When at least one iteration of a timing loop succeeds, the metric reports as
  \<^verbatim>\<open>samples\<close> the number k of collected samples (at most 3 builds, at most 5
  startups), as average the arithmetic mean of those samples rounded to the nearest
  integer, as min and max the least and the greatest of them, and the average lies between
  min and max. Two runs whose samples are permutations of each other report the same
  average. A sample is collected exactly in the iterations that succeed: a build iteration
  adds the duration of its build command when that command succeeds and nothing otherwise;
  a startup iteration adds the time from before the run command to the end of the readiness
  wait when both succeed. Builds of 12000, 14500 and 13200 ms give average 13233,
  min 12000, max 14500 and 3 samples.
\<close>

theorem sample_aggregation:
  "(build_samples w \<noteq> [] \<longrightarrow>
      m_samples (fst (measureBuildTime w)) = Some (length (build_samples w))
      \<and> length (build_samples w) \<le> 3
      \<and> m_average (fst (measureBuildTime w)) = Math_round (arithmetic_mean (build_samples w))
      \<and> \<bar>real_of_int (m_average (fst (measureBuildTime w))) - arithmetic_mean (build_samples w)\<bar> \<le> 1 / 2
      \<and> m_min (fst (measureBuildTime w)) = Min (set (build_samples w))
      \<and> m_max (fst (measureBuildTime w)) = Max (set (build_samples w))
      \<and> m_min (fst (measureBuildTime w)) \<le> m_average (fst (measureBuildTime w))
      \<and> m_average (fst (measureBuildTime w)) \<le> m_max (fst (measureBuildTime w))
      \<and> (\<forall>w2. mset (build_samples w2) = mset (build_samples w) \<longrightarrow>
             m_average (fst (measureBuildTime w2)) = m_average (fst (measureBuildTime w))))
   \<and> (startup_samples img v \<noteq> [] \<longrightarrow>
      m_samples (fst (measureStartupTime img v)) = Some (length (startup_samples img v))
      \<and> length (startup_samples img v) \<le> 5
      \<and> m_average (fst (measureStartupTime img v)) = Math_round (arithmetic_mean (startup_samples img v))
      \<and> \<bar>real_of_int (m_average (fst (measureStartupTime img v))) - arithmetic_mean (startup_samples img v)\<bar> \<le> 1 / 2
      \<and> m_min (fst (measureStartupTime img v)) = Min (set (startup_samples img v))
      \<and> m_max (fst (measureStartupTime img v)) = Max (set (startup_samples img v))
      \<and> m_min (fst (measureStartupTime img v)) \<le> m_average (fst (measureStartupTime img v))
      \<and> m_average (fst (measureStartupTime img v)) \<le> m_max (fst (measureStartupTime img v))
      \<and> (\<forall>img2 v2. mset (startup_samples img2 v2) = mset (startup_samples img v) \<longrightarrow>
             m_average (fst (measureStartupTime img2 v2)) = m_average (fst (measureStartupTime img v))))
   \<and> fst (build_iteration i (tms, w)) =
        (if r_ok (engine w (length (trace w)))
         then tms @ [int (r_took (engine w (length (trace w))))] else tms)
   \<and> fst (startup_iteration img i (tms, v)) =
        (case execSync (''docker run -d --name '' @ imageName @ ''-startup-test-'' @ show_nat i
                        @ '' '' @ img) v of
           (Inl e, w1) \<Rightarrow> tms
         | (Inr out, w1) \<Rightarrow>
             (case waitForContainer (trim out) 30000 w1 of
                (Inl e, w2) \<Rightarrow> tms
              | (Inr ready, w2) \<Rightarrow> tms @ [clock w2 - clock v]))
   \<and> build_samples build_scenario_world = [12000, 14500, 13200]
   \<and> fst (measureBuildTime build_scenario_world) =
        \<lparr>m_average = 13233, m_min = 12000, m_max = 14500, m_unit = ''ms'', m_samples = Some 3\<rparr>"
proof -
  have b: "build_samples w \<noteq> [] \<longrightarrow>
      m_samples (fst (measureBuildTime w)) = Some (length (build_samples w))
      \<and> length (build_samples w) \<le> 3
      \<and> m_average (fst (measureBuildTime w)) = Math_round (arithmetic_mean (build_samples w))
      \<and> \<bar>real_of_int (m_average (fst (measureBuildTime w))) - arithmetic_mean (build_samples w)\<bar> \<le> 1 / 2
      \<and> m_min (fst (measureBuildTime w)) = Min (set (build_samples w))
      \<and> m_max (fst (measureBuildTime w)) = Max (set (build_samples w))
      \<and> m_min (fst (measureBuildTime w)) \<le> m_average (fst (measureBuildTime w))
      \<and> m_average (fst (measureBuildTime w)) \<le> m_max (fst (measureBuildTime w))
      \<and> (\<forall>w2. mset (build_samples w2) = mset (build_samples w) \<longrightarrow>
             m_average (fst (measureBuildTime w2)) = m_average (fst (measureBuildTime w)))"
  proof
    assume ne: "build_samples w \<noteq> []"
    note P = metric_props[OF ne build_metric]
    have inv: "\<forall>w2. mset (build_samples w2) = mset (build_samples w) \<longrightarrow>
             m_average (fst (measureBuildTime w2)) = m_average (fst (measureBuildTime w))"
    proof (intro allI impI)
      fix w2 assume eq: "mset (build_samples w2) = mset (build_samples w)"
      then have ne2: "build_samples w2 \<noteq> []" using ne by (metis mset_zero_iff)
      show "m_average (fst (measureBuildTime w2)) = m_average (fst (measureBuildTime w))"
        unfolding P(2) metric_props(2)[OF ne2 build_metric]
        by (simp add: mset_arithmetic_mean[OF eq])
    qed
    show "m_samples (fst (measureBuildTime w)) = Some (length (build_samples w))
      \<and> length (build_samples w) \<le> 3
      \<and> m_average (fst (measureBuildTime w)) = Math_round (arithmetic_mean (build_samples w))
      \<and> \<bar>real_of_int (m_average (fst (measureBuildTime w))) - arithmetic_mean (build_samples w)\<bar> \<le> 1 / 2
      \<and> m_min (fst (measureBuildTime w)) = Min (set (build_samples w))
      \<and> m_max (fst (measureBuildTime w)) = Max (set (build_samples w))
      \<and> m_min (fst (measureBuildTime w)) \<le> m_average (fst (measureBuildTime w))
      \<and> m_average (fst (measureBuildTime w)) \<le> m_max (fst (measureBuildTime w))
      \<and> (\<forall>w2. mset (build_samples w2) = mset (build_samples w) \<longrightarrow>
             m_average (fst (measureBuildTime w2)) = m_average (fst (measureBuildTime w)))"
      using P build_samples_le[of w] inv by blast
  qed
  have s: "startup_samples img v \<noteq> [] \<longrightarrow>
      m_samples (fst (measureStartupTime img v)) = Some (length (startup_samples img v))
      \<and> length (startup_samples img v) \<le> 5
      \<and> m_average (fst (measureStartupTime img v)) = Math_round (arithmetic_mean (startup_samples img v))
      \<and> \<bar>real_of_int (m_average (fst (measureStartupTime img v))) - arithmetic_mean (startup_samples img v)\<bar> \<le> 1 / 2
      \<and> m_min (fst (measureStartupTime img v)) = Min (set (startup_samples img v))
      \<and> m_max (fst (measureStartupTime img v)) = Max (set (startup_samples img v))
      \<and> m_min (fst (measureStartupTime img v)) \<le> m_average (fst (measureStartupTime img v))
      \<and> m_average (fst (measureStartupTime img v)) \<le> m_max (fst (measureStartupTime img v))
      \<and> (\<forall>img2 v2. mset (startup_samples img2 v2) = mset (startup_samples img v) \<longrightarrow>
             m_average (fst (measureStartupTime img2 v2)) = m_average (fst (measureStartupTime img v)))"
  proof
    assume ne: "startup_samples img v \<noteq> []"
    note P = metric_props[OF ne startup_metric]
    have inv: "\<forall>img2 v2. mset (startup_samples img2 v2) = mset (startup_samples img v) \<longrightarrow>
             m_average (fst (measureStartupTime img2 v2)) = m_average (fst (measureStartupTime img v))"
    proof (intro allI impI)
      fix img2 v2 assume eq: "mset (startup_samples img2 v2) = mset (startup_samples img v)"
      then have ne2: "startup_samples img2 v2 \<noteq> []" using ne by (metis mset_zero_iff)
      show "m_average (fst (measureStartupTime img2 v2)) = m_average (fst (measureStartupTime img v))"
        unfolding P(2) metric_props(2)[OF ne2 startup_metric]
        by (simp add: mset_arithmetic_mean[OF eq])
    qed
    show "m_samples (fst (measureStartupTime img v)) = Some (length (startup_samples img v))
      \<and> length (startup_samples img v) \<le> 5
      \<and> m_average (fst (measureStartupTime img v)) = Math_round (arithmetic_mean (startup_samples img v))
      \<and> \<bar>real_of_int (m_average (fst (measureStartupTime img v))) - arithmetic_mean (startup_samples img v)\<bar> \<le> 1 / 2
      \<and> m_min (fst (measureStartupTime img v)) = Min (set (startup_samples img v))
      \<and> m_max (fst (measureStartupTime img v)) = Max (set (startup_samples img v))
      \<and> m_min (fst (measureStartupTime img v)) \<le> m_average (fst (measureStartupTime img v))
      \<and> m_average (fst (measureStartupTime img v)) \<le> m_max (fst (measureStartupTime img v))
      \<and> (\<forall>img2 v2. mset (startup_samples img2 v2) = mset (startup_samples img v) \<longrightarrow>
             m_average (fst (measureStartupTime img2 v2)) = m_average (fst (measureStartupTime img v)))"
      using P startup_samples_le[of img v] inv by blast
  qed
  show ?thesis
    using b s build_iteration_sample[of i tms w] startup_iteration_sample[of img i tms v]
      build_samples_scenario build_scenario_metric
    by (intro conjI) assumption+
qed

theorem sample_aggregation_witness:
  "build_samples build_scenario_world \<noteq> []
   \<and> m_samples (fst (measureBuildTime build_scenario_world)) = Some 3
   \<and> m_min (fst (measureBuildTime build_scenario_world)) \<le> m_average (fst (measureBuildTime build_scenario_world))
   \<and> startup_samples ''app'' startup_scenario_world \<noteq> []
   \<and> m_samples (fst (measureStartupTime ''app'' startup_scenario_world)) = Some 5
   \<and> m_average (fst (measureStartupTime ''app'' startup_scenario_world)) \<le> m_max (fst (measureStartupTime ''app'' startup_scenario_world))"
  using sample_aggregation[of build_scenario_world "''app''" startup_scenario_world 0 "[]"]
  by (simp add: build_samples_scenario startup_samples_scenario)

subsection \<open>Readiness polling\<close>

lemma engine_execSync [simp]: "engine (snd (execSync c w)) = engine w"
  by (simp add: execSync_def Let_def)

lemma engine_sleep [simp]: "engine (sleep ms w) = engine w"
  by (simp add: sleep_def)

lemma trace_execSync [simp]: "trace (snd (execSync c w)) = trace w @ [c]"
  by (simp add: execSync_def Let_def)

lemma trace_sleep [simp]: "trace (sleep ms w) = trace w"
  by (simp add: sleep_def)

lemma clock_execSync: "clock (snd (execSync c w)) = clock w + int (r_took (engine w (length (trace w))))"
  by (simp add: execSync_def Let_def)

lemma clock_sleep [simp]: "clock (sleep ms w) = clock w + ms"
  by (simp add: sleep_def)

lemma fst_execSync:
  "fst (execSync c w) =
     (if r_ok (engine w (length (trace w))) then Inr (r_stdout (engine w (length (trace w))))
      else Inl (ExecError c))"
  by (simp add: execSync_def Let_def)

lemma wait_loop_outcomes:
  "fst (wait_loop cid t s w) \<in>
     {Inr True, Inl (Error ''Container failed to start''), Inl (Error ''Container startup timeout'')}"
proof (induction cid t s w rule: wait_loop.induct)
  case (1 cid t s w)
  show ?case
    using 1 by (subst wait_loop.simps) (auto simp: Let_def split: sum.splits)
qed

lemma wait_loop_timeout_elapsed:
  "fst (wait_loop cid t s w) = Inl (Error ''Container startup timeout'')
   \<Longrightarrow> t \<le> clock (snd (wait_loop cid t s w)) - s"
proof (induction cid t s w rule: wait_loop.induct)
  case (1 cid t s w)
  from "1.prems" show ?case
    apply (subst wait_loop.simps)
    apply (subst (asm) wait_loop.simps)
    using "1.IH"
    by (auto simp: Let_def split: sum.splits if_splits)
qed

lemma wait_loop_never_ready:
  "\<forall>n. r_ok (engine w n) \<and> trim (r_stdout (engine w n)) \<noteq> ''running''
   \<Longrightarrow> fst (wait_loop cid t s w) = Inl (Error ''Container startup timeout'')"
proof (induction cid t s w rule: wait_loop.induct)
  case (1 cid t s w)
  show ?case
    using 1 by (subst wait_loop.simps) (auto simp: Let_def fst_execSync split: sum.splits)
qed

lemma wait_loop_step:
  "clock w - s < t \<Longrightarrow>
     (isl (fst (status_poll cid w)) \<longrightarrow>
        wait_loop cid t s w = (Inl (Error ''Container failed to start''), snd (status_poll cid w)))
   \<and> (fst (status_poll cid w) = Inr st \<and> trim st = ''running'' \<longrightarrow>
        (isl (fst (health_poll cid w)) \<longrightarrow>
           wait_loop cid t s w = (Inr True, snd (health_poll cid w)))
      \<and> (fst (health_poll cid w) = Inr h \<and> (trim h = ''healthy'' \<or> trim h = ''none'') \<longrightarrow>
           wait_loop cid t s w = (Inr True, snd (health_poll cid w)))
      \<and> (fst (health_poll cid w) = Inr h \<and> trim h \<noteq> ''healthy'' \<and> trim h \<noteq> ''none'' \<longrightarrow>
           wait_loop cid t s w = wait_loop cid t s (sleep 500 (snd (health_poll cid w)))))
   \<and> (fst (status_poll cid w) = Inr st \<and> trim st \<noteq> ''running'' \<longrightarrow>
        wait_loop cid t s w = wait_loop cid t s (sleep 500 (snd (status_poll cid w))))"
  using wait_loop.simps[of cid t s w]
  by (auto simp: Let_def isl_def split: sum.splits)

lemma wait_loop_expired:
  "\<not> clock w - s < t \<Longrightarrow> wait_loop cid t s w = (Inl (Error ''Container startup timeout''), w)"
  by (subst wait_loop.simps) simp

text \<open>
  C8. waitForContainer polls at a fixed interval of 500 ms. At the top of an iteration
  that is still within the timeout: if the state inspection fails, it fails at once with
  the error "Container failed to start", having issued that one command and nothing more;
  if the state is \<^verbatim>\<open>running\<close> and the health inspection fails (no health check is
  configured) or reports \<^verbatim>\<open>healthy\<close> or \<^verbatim>\<open>none\<close>, it returns success after these two
  commands, without sleeping; otherwise it sleeps 500 ms and polls again. Once the timeout
  has elapsed it fails with "Container startup timeout". In particular a container that is
  running without a health check is reported ready by the first poll iteration, a wait
  always ends with one of these three outcomes, a timeout error is only returned when at
  least the timeout has elapsed, and a container that never reaches the state
  \<^verbatim>\<open>running\<close> ends in the timeout error.
\<close>

theorem waitForContainer_polling:
  "(clock w - s < t \<longrightarrow>
      (isl (fst (status_poll cid w)) \<longrightarrow>
         wait_loop cid t s w = (Inl (Error ''Container failed to start''), snd (status_poll cid w)))
    \<and> (fst (status_poll cid w) = Inr st \<and> trim st = ''running'' \<longrightarrow>
         (isl (fst (health_poll cid w)) \<longrightarrow>
            wait_loop cid t s w = (Inr True, snd (health_poll cid w)))
       \<and> (fst (health_poll cid w) = Inr h \<and> (trim h = ''healthy'' \<or> trim h = ''none'') \<longrightarrow>
            wait_loop cid t s w = (Inr True, snd (health_poll cid w)))
       \<and> (fst (health_poll cid w) = Inr h \<and> trim h \<noteq> ''healthy'' \<and> trim h \<noteq> ''none'' \<longrightarrow>
            wait_loop cid t s w = wait_loop cid t s (sleep 500 (snd (health_poll cid w)))))
    \<and> (fst (status_poll cid w) = Inr st \<and> trim st \<noteq> ''running'' \<longrightarrow>
         wait_loop cid t s w = wait_loop cid t s (sleep 500 (snd (status_poll cid w)))))
   \<and> (\<not> clock w - s < t \<longrightarrow>
         wait_loop cid t s w = (Inl (Error ''Container startup timeout''), w))
   \<and> waitForContainer cid t w = wait_loop cid t (clock w) w
   \<and> (0 < t \<and> fst (status_poll cid w) = Inr st \<and> trim st = ''running''
        \<and> isl (fst (health_poll cid w)) \<longrightarrow>
         waitForContainer cid t w = (Inr True, snd (health_poll cid w)))
   \<and> trace (snd (status_poll cid w)) = trace w @ [inspect_cmd ''Status'' cid]
   \<and> trace (snd (health_poll cid w))
        = trace w @ [inspect_cmd ''Status'' cid, inspect_cmd ''Health.Status'' cid]
   \<and> clock (snd (health_poll cid w))
        = clock w + int (r_took (engine w (length (trace w))))
          + int (r_took (engine w (length (trace w) + 1)))
   \<and> clock (sleep 500 w) = clock w + 500
   \<and> fst (waitForContainer cid t w) \<in>
        {Inr True, Inl (Error ''Container failed to start''),
         Inl (Error ''Container startup timeout'')}
   \<and> (fst (waitForContainer cid t w) = Inl (Error ''Container startup timeout'') \<longrightarrow>
         t \<le> clock (snd (waitForContainer cid t w)) - clock w)
   \<and> ((\<forall>n. r_ok (engine w n) \<and> trim (r_stdout (engine w n)) \<noteq> ''running'') \<longrightarrow>
         fst (waitForContainer cid t w) = Inl (Error ''Container startup timeout''))"
proof -
  have step: "clock w - s < t \<longrightarrow>
      (isl (fst (status_poll cid w)) \<longrightarrow>
         wait_loop cid t s w = (Inl (Error ''Container failed to start''), snd (status_poll cid w)))
    \<and> (fst (status_poll cid w) = Inr st \<and> trim st = ''running'' \<longrightarrow>
         (isl (fst (health_poll cid w)) \<longrightarrow>
            wait_loop cid t s w = (Inr True, snd (health_poll cid w)))
       \<and> (fst (health_poll cid w) = Inr h \<and> (trim h = ''healthy'' \<or> trim h = ''none'') \<longrightarrow>
            wait_loop cid t s w = (Inr True, snd (health_poll cid w)))
       \<and> (fst (health_poll cid w) = Inr h \<and> trim h \<noteq> ''healthy'' \<and> trim h \<noteq> ''none'' \<longrightarrow>
            wait_loop cid t s w = wait_loop cid t s (sleep 500 (snd (health_poll cid w)))))
    \<and> (fst (status_poll cid w) = Inr st \<and> trim st \<noteq> ''running'' \<longrightarrow>
         wait_loop cid t s w = wait_loop cid t s (sleep 500 (snd (status_poll cid w))))"
    using wait_loop_step[of w s t cid st h] by blast
  have expired: "\<not> clock w - s < t \<longrightarrow>
         wait_loop cid t s w = (Inl (Error ''Container startup timeout''), w)"
    using wait_loop_expired by blast
  have unfold: "waitForContainer cid t w = wait_loop cid t (clock w) w"
    by (simp add: waitForContainer_def)
  have first: "0 < t \<and> fst (status_poll cid w) = Inr st \<and> trim st = ''running''
        \<and> isl (fst (health_poll cid w)) \<longrightarrow>
         waitForContainer cid t w = (Inr True, snd (health_poll cid w))"
    using wait_loop_step[of w "clock w" t cid st h] by (simp add: waitForContainer_def)
  have tr1: "trace (snd (status_poll cid w)) = trace w @ [inspect_cmd ''Status'' cid]"
    by simp
  have tr2: "trace (snd (health_poll cid w))
        = trace w @ [inspect_cmd ''Status'' cid, inspect_cmd ''Health.Status'' cid]"
    by simp
  have ck: "clock (snd (health_poll cid w))
        = clock w + int (r_took (engine w (length (trace w))))
          + int (r_took (engine w (length (trace w) + 1)))"
    by (simp add: clock_execSync)
  have sl: "clock (sleep 500 w) = clock w + 500"
    by simp
  have out: "fst (waitForContainer cid t w) \<in>
        {Inr True, Inl (Error ''Container failed to start''),
         Inl (Error ''Container startup timeout'')}"
    unfolding waitForContainer_def by (rule wait_loop_outcomes)
  have el: "fst (waitForContainer cid t w) = Inl (Error ''Container startup timeout'') \<longrightarrow>
         t \<le> clock (snd (waitForContainer cid t w)) - clock w"
    unfolding waitForContainer_def using wait_loop_timeout_elapsed by blast
  have nr: "(\<forall>n. r_ok (engine w n) \<and> trim (r_stdout (engine w n)) \<noteq> ''running'') \<longrightarrow>
         fst (waitForContainer cid t w) = Inl (Error ''Container startup timeout'')"
    unfolding waitForContainer_def using wait_loop_never_ready by blast
  show ?thesis
    using step expired unfold first tr1 tr2 ck sl out el nr
    by (intro conjI) assumption+
qed

lemma trim_running: "trim (''running'' @ [CHR 0x0A]) = ''running''"
  by (simp add: trim_def is_space_def)

lemma trim_healthy: "trim (''healthy'' @ [CHR 0x0A]) = ''healthy''"
  by (simp add: trim_def is_space_def)

lemma trim_created: "trim (''created'' @ [CHR 0x0A]) \<noteq> ''running''"
  by (simp add: trim_def is_space_def)

theorem waitForContainer_polling_witness:
  "fst (waitForContainer ''c1'' 30000 ready_world) = Inr True
   \<and> clock (snd (waitForContainer ''c1'' 30000 ready_world)) = 1060
   \<and> fst (waitForContainer ''c1'' 30000 healthy_world) = Inr True
   \<and> waitForContainer ''c1'' 30000 crashed_world
       = (Inl (Error ''Container failed to start''), snd (status_poll ''c1'' crashed_world))
   \<and> length (trace (snd (waitForContainer ''c1'' 30000 crashed_world))) = 1
   \<and> fst (waitForContainer ''c1'' 30000 starting_world) = Inl (Error ''Container startup timeout'')
   \<and> 30000 \<le> clock (snd (waitForContainer ''c1'' 30000 starting_world)) - clock starting_world"
proof -
  let ?run = "''running'' @ [CHR 0x0A]" and ?ok = "''healthy'' @ [CHR 0x0A]"
  note T1 = waitForContainer_polling[of ready_world 1000 30000 "''c1''" ?run "[]"]
  note T2 = waitForContainer_polling[of healthy_world 1000 30000 "''c1''" ?run ?ok]
  note T3 = waitForContainer_polling[of crashed_world 1000 30000 "''c1''" "[]" "[]"]
  note T4 = waitForContainer_polling[of starting_world 1000 30000 "''c1''" "[]" "[]"]
  have t: "(0::int) < 30000" by simp
  have a1: "fst (status_poll ''c1'' ready_world) = Inr ?run"
    by (simp add: ready_world_def fst_execSync)
  have b1: "isl (fst (health_poll ''c1'' ready_world))"
    by (simp add: ready_world_def fst_execSync)
  have r1: "waitForContainer ''c1'' 30000 ready_world = (Inr True, snd (health_poll ''c1'' ready_world))"
    using T1 t a1 b1 trim_running by blast
  have c1: "clock (snd (health_poll ''c1'' ready_world)) = 1060"
    by (simp add: ready_world_def clock_execSync)
  have 1: "fst (waitForContainer ''c1'' 30000 ready_world) = Inr True
    \<and> clock (snd (waitForContainer ''c1'' 30000 ready_world)) = 1060"
    using r1 c1 by simp
  have a2: "fst (status_poll ''c1'' healthy_world) = Inr ?run"
    by (simp add: healthy_world_def fst_execSync)
  have b2: "fst (health_poll ''c1'' healthy_world) = Inr ?ok"
    by (simp add: healthy_world_def fst_execSync)
  have k2: "clock healthy_world - 1000 < 30000" "clock healthy_world = 1000"
    by (simp_all add: healthy_world_def)
  have l2: "wait_loop ''c1'' 30000 1000 healthy_world = (Inr True, snd (health_poll ''c1'' healthy_world))"
    using T2 a2 b2 k2(1) trim_running trim_healthy by blast
  have u2: "waitForContainer ''c1'' 30000 healthy_world = wait_loop ''c1'' 30000 (clock healthy_world) healthy_world"
    using T2 by blast
  have 2: "fst (waitForContainer ''c1'' 30000 healthy_world) = Inr True"
    using l2 u2 k2(2) by simp
  have a3: "isl (fst (status_poll ''c1'' crashed_world))"
    by (simp add: crashed_world_def fst_execSync)
  have k3: "clock crashed_world - 1000 < 30000" "clock crashed_world = 1000"
    by (simp_all add: crashed_world_def)
  have l3: "wait_loop ''c1'' 30000 1000 crashed_world
      = (Inl (Error ''Container failed to start''), snd (status_poll ''c1'' crashed_world))"
    using T3 a3 k3(1) by blast
  have u3: "waitForContainer ''c1'' 30000 crashed_world = wait_loop ''c1'' 30000 (clock crashed_world) crashed_world"
    using T3 by blast
  have 3: "waitForContainer ''c1'' 30000 crashed_world
       = (Inl (Error ''Container failed to start''), snd (status_poll ''c1'' crashed_world))"
    using l3 u3 k3(2) by simp
  have n3b: "length (trace (snd (waitForContainer ''c1'' 30000 crashed_world))) = 1"
    unfolding 3 by (simp add: crashed_world_def)
  have h4: "\<forall>n. r_ok (engine starting_world n) \<and> trim (r_stdout (engine starting_world n)) \<noteq> ''running''"
  proof
    fix n
    have o: "r_ok (engine starting_world n)" by (simp add: starting_world_def)
    have e: "r_stdout (engine starting_world n) = ''created'' @ [CHR 0x0A]"
      by (simp add: starting_world_def)
    show "r_ok (engine starting_world n) \<and> trim (r_stdout (engine starting_world n)) \<noteq> ''running''"
      using o trim_created unfolding e by blast
  qed
  note tail4 = T4[THEN conjunct2, THEN conjunct2, THEN conjunct2, THEN conjunct2, THEN conjunct2, THEN conjunct2, THEN conjunct2, THEN conjunct2, THEN conjunct2]
  have 4: "fst (waitForContainer ''c1'' 30000 starting_world) = Inl (Error ''Container startup timeout'')"
    by (rule tail4[THEN conjunct2, THEN mp, OF h4])
  have 5: "30000 \<le> clock (snd (waitForContainer ''c1'' 30000 starting_world)) - clock starting_world"
    by (rule tail4[THEN conjunct1, THEN mp, OF 4])
  show ?thesis
    using 1[THEN conjunct1] 1[THEN conjunct2] 2 3 n3b 4 5 by (intro conjI) assumption+
qed

subsection \<open>Memory statistics\<close>

lemma parse_128MiB: "parseMemorySize ''128MiB '' = Fin 128"
  by (simp add: parseMemorySize_def size_match_here_def unit_prefix_def Math_pow_def
      memory_units_def unit_exponent_def parseFloat_opt_def parseFloat_def unsigned_literal_def
      exponent_part_def is_space_def is_digit_def digits_val_def digit_val_def Let_def)

lemma parse_2GiB: "parseMemorySize '' 2GiB'' = Fin 2"
  by (simp add: parseMemorySize_def size_match_here_def unit_prefix_def Math_pow_def
      memory_units_def unit_exponent_def parseFloat_opt_def parseFloat_def unsigned_literal_def
      exponent_part_def is_space_def is_digit_def digits_val_def digit_val_def Let_def)

lemma format_128: "formatMemorySize (Fin 128) = ''128 B''"
  by (simp add: formatMemorySize_def format_loop.simps number_to_string_def show_hundredths_def
      Math_round_def digit_char_def show_nat.simps)

lemma format_2: "formatMemorySize (Fin 2) = ''2 B''"
  by (simp add: formatMemorySize_def format_loop.simps number_to_string_def show_hundredths_def
      Math_round_def digit_char_def show_nat.simps)

lemma memory_result_scenario:
  "memory_result (''128MiB / 2GiB'' @ [CHR 0x09] @ ''6.00%'') =
     Inr \<lparr>mem_current = ''128 B'', mem_total = ''2 B'', mem_percentage = Fin 6,
          mem_efficiency = ''Poor''\<rparr>"
  by (simp add: memory_result_def nth_opt_def to_number_def parse_128MiB parse_2GiB format_128
      format_2 calculateMemoryEfficiency_def parseFloat_def unsigned_literal_def
      exponent_part_def is_space_def is_digit_def digits_val_def digit_val_def Let_def)

text \<open>
  C1. On the stats output \<^verbatim>\<open>128MiB / 2GiB\<close> with percentage \<^verbatim>\<open>6.00%\<close> the code returns
  current "128 B", total "2 B", percentage 6 and efficiency "Poor": parseMemorySize
  yields the bare number before the unit (128 and 2), not 128 * 1024^2 and 2 * 1024^3.
\<close>

theorem measureMemoryUsage_ignores_units:
  "fst (measureMemoryUsage ''app:latest'' memory_scenario_world) =
     \<lparr>mem_current = ''128 B'', mem_total = ''2 B'', mem_percentage = Fin 6,
      mem_efficiency = ''Poor''\<rparr>
   \<and> parseMemorySize ''128MiB '' = Fin 128
   \<and> parseMemorySize '' 2GiB'' = Fin 2"
  by (simp add: measureMemoryUsage_def memory_scenario_world_def execSync_def sleep_def Let_def
      trim_def is_space_def memory_result_scenario[simplified] parse_128MiB parse_2GiB)

subsection \<open>The result when no sample was collected\<close>

text \<open>
  C5. When every command fails, measureBuildTime and measureStartupTime return average,
  min and max 0 and no \<^verbatim>\<open>samples\<close> property at all; no run of either ever reports
  \<^verbatim>\<open>samples\<close> = 0.
\<close>

theorem no_sample_sentinel_lacks_samples:
  "fst (measureBuildTime failing_world)
     = \<lparr>m_average = 0, m_min = 0, m_max = 0, m_unit = ''ms'', m_samples = None\<rparr>
   \<and> fst (measureStartupTime ''app:latest'' failing_world)
     = \<lparr>m_average = 0, m_min = 0, m_max = 0, m_unit = ''ms'', m_samples = None\<rparr>
   \<and> m_samples (fst (measureBuildTime w)) \<noteq> Some 0
   \<and> m_samples (fst (measureStartupTime img w)) \<noteq> Some 0"
proof -
  have 1: "fst (measureBuildTime failing_world)
     = \<lparr>m_average = 0, m_min = 0, m_max = 0, m_unit = ''ms'', m_samples = None\<rparr>"
    by (simp add: measureBuildTime_def for_upto_3 build_iteration_def execSync_def
        failing_world_def Let_def)
  have 2: "fst (measureStartupTime ''app:latest'' failing_world)
     = \<lparr>m_average = 0, m_min = 0, m_max = 0, m_unit = ''ms'', m_samples = None\<rparr>"
    by (simp add: measureStartupTime_def for_upto_5 startup_iteration_def execSync_def
        failing_world_def Let_def)
  have 3: "m_samples (fst (measureBuildTime w)) \<noteq> Some 0"
    by (simp add: build_metric split: list.splits)
  have 4: "m_samples (fst (measureStartupTime img w)) \<noteq> Some 0"
    by (simp add: startup_metric split: list.splits)
  show ?thesis using 1 2 3 4 by (intro conjI) assumption+
qed

subsection \<open>Containers left behind by a failing probe\<close>

text \<open>
  C2. When the container starts and the stats command fails, measureMemoryUsage returns
  after these two commands: no stop and no remove is issued. When the container starts
  and the state inspection fails, an iteration of measureStartupTime issues the run and
  the inspection and nothing else.
\<close>

theorem failing_probe_skips_cleanup:
  "trace (snd (measureMemoryUsage ''app:latest'' started_then_failing_world))
     = [''docker run -d --name trouter-perf-test-memory-test app:latest'', stats_cmd ''4f2a9c'']
   \<and> fst (measureMemoryUsage ''app:latest'' started_then_failing_world) = memory_unknown
   \<and> trace (snd (startup_iteration ''app:latest'' 0 ([], started_then_failing_world)))
     = [''docker run -d --name trouter-perf-test-startup-test-0 app:latest'',
        inspect_cmd ''Status'' ''4f2a9c'']"
  by (simp add: measureMemoryUsage_def startup_iteration_def started_then_failing_world_def
      execSync_def sleep_def Let_def trim_def is_space_def imageName_def waitForContainer_def
      wait_loop.simps show_nat.simps digit_char_def)

subsection \<open>Release of the temporary image\<close>

lemma cleanupTempImage_never_throws: "fst (cleanupTempImage t w) = Inr ()"
  by (simp add: cleanupTempImage_def split: prod.splits sum.splits)

lemma cleanupTempImage_trace: "trace (snd (cleanupTempImage t w)) = trace w @ [''docker rmi -f '' @ t]"
  by (simp add: cleanupTempImage_def execSync_def Let_def)

lemma try_release_owned:
  "falsy imageTag \<Longrightarrow>
   try_release imageTag img body w = (fst (body w), snd (cleanupTempImage img (snd (body w))))"
  using cleanupTempImage_never_throws[of img "snd (body w)"]
  by (auto simp: try_release_def await_def return_def split: prod.splits sum.splits)

lemma try_release_supplied:
  "\<not> falsy imageTag \<Longrightarrow> try_release imageTag img body w = body w"
  by (auto simp: try_release_def await_def return_def split: prod.splits sum.splits)

lemma acquire_none:
  "falsy imageTag \<Longrightarrow> acquire_image name imageTag w = buildTempImage name w"
  by (auto simp: falsy_def acquire_image_def split: option.splits)

lemma acquire_some:
  "\<not> falsy imageTag \<Longrightarrow> \<exists>t. imageTag = Some t \<and> acquire_image name imageTag w = (Inr t, w)"
  by (auto simp: falsy_def acquire_image_def split: option.splits)

text \<open>
  C3. cleanupTempImage never throws, whether the removal succeeds or fails, and issues
  one forced removal. In testPerformance and in scanImage, whatever the probes do
  (return or throw): when the caller supplied no tag and the build succeeds, the pipeline
  ends with exactly one cleanupTempImage on the built image, after the probes, and returns
  or throws what the probes produced; when the build fails, its error propagates and
  there is no image to release; when the caller supplied a tag, the pipeline is the probes
  alone, with no release.
\<close>

theorem image_release_exactly_once:
  "fst (cleanupTempImage t w) = Inr ()
   \<and> trace (snd (cleanupTempImage t w)) = trace w @ [''docker rmi -f '' @ t]
   \<and> (falsy imageTag \<and> buildTempImage imageName w = (Inr img, w1) \<longrightarrow>
        testPerformance P imageTag w
          = (fst (performance_report P img w1),
             snd (cleanupTempImage img (snd (performance_report P img w1)))))
   \<and> (falsy imageTag \<and> buildTempImage imageName w = (Inl e, w1) \<longrightarrow>
        testPerformance P imageTag w = (Inl e, w1))
   \<and> (\<not> falsy imageTag \<longrightarrow>
        (\<exists>tag. imageTag = Some tag \<and> testPerformance P imageTag w = performance_report P tag w))
   \<and> (falsy imageTag \<and> buildTempImage ''trouter-temp-scan'' w = (Inr img, w1) \<longrightarrow>
        scanImage Q imageTag w
          = (fst (scan_report Q img w1), snd (cleanupTempImage img (snd (scan_report Q img w1)))))
   \<and> (falsy imageTag \<and> buildTempImage ''trouter-temp-scan'' w = (Inl e, w1) \<longrightarrow>
        scanImage Q imageTag w = (Inl e, w1))
   \<and> (\<not> falsy imageTag \<longrightarrow>
        (\<exists>tag. imageTag = Some tag \<and> scanImage Q imageTag w = scan_report Q tag w))"
proof -
  have 1: "falsy imageTag \<and> buildTempImage imageName w = (Inr img, w1) \<longrightarrow>
        testPerformance P imageTag w
          = (fst (performance_report P img w1),
             snd (cleanupTempImage img (snd (performance_report P img w1))))"
    by (simp add: testPerformance_def await_def acquire_none try_release_owned)
  have 2: "falsy imageTag \<and> buildTempImage imageName w = (Inl e, w1) \<longrightarrow>
        testPerformance P imageTag w = (Inl e, w1)"
    by (simp add: testPerformance_def await_def acquire_none)
  have 3: "\<not> falsy imageTag \<longrightarrow>
        (\<exists>tag. imageTag = Some tag \<and> testPerformance P imageTag w = performance_report P tag w)"
    using acquire_some[of imageTag imageName w]
    by (auto simp: testPerformance_def await_def try_release_supplied)
  have 4: "falsy imageTag \<and> buildTempImage ''trouter-temp-scan'' w = (Inr img, w1) \<longrightarrow>
        scanImage Q imageTag w
          = (fst (scan_report Q img w1), snd (cleanupTempImage img (snd (scan_report Q img w1))))"
    by (simp add: scanImage_def await_def acquire_none try_release_owned)
  have 5: "falsy imageTag \<and> buildTempImage ''trouter-temp-scan'' w = (Inl e, w1) \<longrightarrow>
        scanImage Q imageTag w = (Inl e, w1)"
    by (simp add: scanImage_def await_def acquire_none)
  have 6: "\<not> falsy imageTag \<longrightarrow>
        (\<exists>tag. imageTag = Some tag \<and> scanImage Q imageTag w = scan_report Q tag w)"
    using acquire_some[of imageTag "''trouter-temp-scan''" w]
    by (auto simp: scanImage_def await_def try_release_supplied)
  show ?thesis
    using cleanupTempImage_never_throws[of t w] cleanupTempImage_trace[of t w] 1 2 3 4 5 6
    by (intro conjI) assumption+
qed

lemma build_ok_perf:
  "buildTempImage imageName build_scenario_world
     = (Inr ''trouter-perf-test-0'', snd (buildTempImage imageName build_scenario_world))"
  by (simp add: buildTempImage_def build_scenario_world_def execSync_def Let_def show_int_def
      show_nat.simps digit_char_def imageName_def)

lemma build_ok_scan:
  "buildTempImage ''trouter-temp-scan'' build_scenario_world
     = (Inr ''trouter-temp-scan-0'', snd (buildTempImage ''trouter-temp-scan'' build_scenario_world))"
  by (simp add: buildTempImage_def build_scenario_world_def execSync_def Let_def show_int_def
      show_nat.simps digit_char_def)

lemma build_fails:
  "buildTempImage imageName failing_world
     = (Inl (Error ''Failed to build Docker image: Command failed: docker build -t trouter-perf-test-0 .''),
        snd (buildTempImage imageName failing_world))"
  by (simp add: buildTempImage_def failing_world_def execSync_def Let_def show_int_def
      show_nat.simps digit_char_def imageName_def error_message_def)

lemma throwing_report:
  "performance_report throwing_probes img w = (Inl (Error ''probe failed''), w)"
  by (simp add: performance_report_def throwing_probes_def await_def)

lemma silent_report:
  "scan_report silent_probes img w
     = (Inr \<lparr>scan_image = img, scan_vulnerabilities = (), scan_size = ''5MB'', scan_layers = (),
             scan_secrets = (), scan_permissions = ()\<rparr>, w)"
  by (simp add: scan_report_def silent_probes_def await_def return_def)

theorem image_release_exactly_once_witness:
  "falsy None
   \<and> fst (testPerformance throwing_probes None build_scenario_world) = Inl (Error ''probe failed'')
   \<and> trace (snd (testPerformance throwing_probes None build_scenario_world))
       = [''docker build -t trouter-perf-test-0 .'', ''docker rmi -f trouter-perf-test-0'']
   \<and> testPerformance throwing_probes (Some ''app:latest'') build_scenario_world
       = (Inl (Error ''probe failed''), build_scenario_world)
   \<and> trace (snd (testPerformance throwing_probes None failing_world))
       = [''docker build -t trouter-perf-test-0 .'']
   \<and> trace (snd (scanImage silent_probes None build_scenario_world))
       = [''docker build -t trouter-temp-scan-0 .'', ''docker rmi -f trouter-temp-scan-0'']
   \<and> snd (scanImage silent_probes (Some ''app:latest'') build_scenario_world) = build_scenario_world"
proof -
  have f: "falsy None" and nf: "\<not> falsy (Some ''app:latest'')"
    by (simp_all add: falsy_def)
  note A = image_release_exactly_once[of "''x''" build_scenario_world None
      "''trouter-perf-test-0''" "snd (buildTempImage imageName build_scenario_world)"
      throwing_probes "Error ''x''" silent_probes]
  note B = image_release_exactly_once[of "''x''" build_scenario_world "Some ''app:latest''"
      "''x''" build_scenario_world throwing_probes "Error ''x''" silent_probes]
  note C = image_release_exactly_once[of "''x''" failing_world None "''x''"
      "snd (buildTempImage imageName failing_world)" throwing_probes
      "Error ''Failed to build Docker image: Command failed: docker build -t trouter-perf-test-0 .''"
      silent_probes]
  note D = image_release_exactly_once[of "''x''" build_scenario_world None
      "''trouter-temp-scan-0''" "snd (buildTempImage ''trouter-temp-scan'' build_scenario_world)"
      throwing_probes "Error ''x''" silent_probes]
  have a: "testPerformance throwing_probes None build_scenario_world
      = (Inl (Error ''probe failed''),
         snd (cleanupTempImage ''trouter-perf-test-0'' (snd (buildTempImage imageName build_scenario_world))))"
    using A[THEN conjunct2, THEN conjunct2, THEN conjunct1] f build_ok_perf
    by (simp add: throwing_report)
  have a1: "fst (testPerformance throwing_probes None build_scenario_world) = Inl (Error ''probe failed'')"
    by (simp add: a)
  have a2: "trace (snd (testPerformance throwing_probes None build_scenario_world))
       = [''docker build -t trouter-perf-test-0 .'', ''docker rmi -f trouter-perf-test-0'']"
    unfolding a by (simp add: cleanupTempImage_trace buildTempImage_def build_scenario_world_def
        execSync_def Let_def show_int_def show_nat.simps digit_char_def imageName_def)
  have b: "testPerformance throwing_probes (Some ''app:latest'') build_scenario_world
       = (Inl (Error ''probe failed''), build_scenario_world)"
    using B[THEN conjunct2, THEN conjunct2, THEN conjunct2, THEN conjunct2, THEN conjunct1] nf
    by (simp add: throwing_report)
  have c: "testPerformance throwing_probes None failing_world
      = (Inl (Error ''Failed to build Docker image: Command failed: docker build -t trouter-perf-test-0 .''),
         snd (buildTempImage imageName failing_world))"
    using C[THEN conjunct2, THEN conjunct2, THEN conjunct2, THEN conjunct1] f build_fails
    by simp
  have c1: "trace (snd (testPerformance throwing_probes None failing_world))
       = [''docker build -t trouter-perf-test-0 .'']"
    unfolding c by (simp add: buildTempImage_def failing_world_def
        execSync_def Let_def show_int_def show_nat.simps digit_char_def imageName_def)
  have d: "scanImage silent_probes None build_scenario_world
      = (fst (scan_report silent_probes ''trouter-temp-scan-0''
                (snd (buildTempImage ''trouter-temp-scan'' build_scenario_world))),
         snd (cleanupTempImage ''trouter-temp-scan-0''
                (snd (buildTempImage ''trouter-temp-scan'' build_scenario_world))))"
    using D[THEN conjunct2, THEN conjunct2, THEN conjunct2, THEN conjunct2, THEN conjunct2,
        THEN conjunct1] f build_ok_scan
    by (simp add: silent_report)
  have d1: "trace (snd (scanImage silent_probes None build_scenario_world))
       = [''docker build -t trouter-temp-scan-0 .'', ''docker rmi -f trouter-temp-scan-0'']"
    unfolding d by (simp add: cleanupTempImage_trace buildTempImage_def build_scenario_world_def
        execSync_def Let_def show_int_def show_nat.simps digit_char_def)
  have e: "snd (scanImage silent_probes (Some ''app:latest'') build_scenario_world) = build_scenario_world"
    using B[THEN conjunct2, THEN conjunct2, THEN conjunct2, THEN conjunct2, THEN conjunct2,
        THEN conjunct2, THEN conjunct2] nf
    by (simp add: silent_report)
  show ?thesis using f a1 a2 b c1 d1 e by (intro conjI) assumption+
qed

subsection \<open>Vulnerability buckets\<close>

lemma categorize_in_tiers:
  "categorizeVulnerability (Some s) = Inr (if toLowerCase s \<in> set tiers then toLowerCase s else ''info'')"
  by (simp add: categorizeVulnerability_def Let_def)

lemma categorize_tier: "categorizeVulnerability sev = Inr c \<Longrightarrow> c \<in> set tiers"
  by (auto simp: categorizeVulnerability_def Let_def tiers_def split: option.splits if_splits)

lemma push_bucket_tier:
  "c \<in> set tiers \<Longrightarrow> \<exists>r'. push_bucket c v r = Inr r' \<and> bucketed r' = bucketed r + 1
     \<and> vr_total r' = vr_total r"
  by (auto simp: push_bucket_def tiers_def bucketed_def)

lemma bucketed_total_update: "bucketed (r\<lparr>vr_total := n\<rparr>) = bucketed r"
  by (simp add: bucketed_def)

lemma add_vulnerability_step:
  assumes "add_vulnerability v r = Inr r'"
  shows "bucketed r' = bucketed r + 1 \<and> vr_total r' = vr_total r + 1"
proof -
  from assms obtain c r1 where c: "categorizeVulnerability (v_severity v) = Inr c"
    and p: "push_bucket c v r = Inr r1" and r': "r' = r1\<lparr>vr_total := vr_total r1 + 1\<rparr>"
    by (auto simp: add_vulnerability_def split: sum.splits)
  from push_bucket_tier[OF categorize_tier[OF c], of v r] p
  have "bucketed r1 = bucketed r + 1" "vr_total r1 = vr_total r" by auto
  then show ?thesis by (simp add: r' bucketed_total_update)
qed

lemma add_vulnerability_ok:
  assumes "v_severity v = Some s"
  shows "\<exists>r'. add_vulnerability v r = Inr r'"
proof -
  obtain c where c: "categorizeVulnerability (v_severity v) = Inr c"
    using assms categorize_in_tiers[of s] by simp
  obtain r1 where "push_bucket c v r = Inr r1"
    using push_bucket_tier[OF categorize_tier[OF c], of v r] by auto
  then show ?thesis using c by (simp add: add_vulnerability_def)
qed

lemma add_trivy_step:
  assumes "add_trivy_vulnerability tv r = Inr r'"
  shows "bucketed r' = bucketed r + 1 \<and> vr_total r' = vr_total r + 1"
proof -
  let ?v = "\<lparr>v_package = PkgName tv, v_version = InstalledVersion tv,
                   v_severity = Severity tv, v_description = Description tv,
                   v_fix = FixedVersion tv\<rparr>"
  from assms obtain c r1 where c: "categorizeVulnerability (Severity tv) = Inr c"
    and p: "push_bucket c ?v r = Inr r1" and r': "r' = r1\<lparr>vr_total := vr_total r1 + 1\<rparr>"
    by (auto simp: add_trivy_vulnerability_def split: sum.splits)
  from push_bucket_tier[OF categorize_tier[OF c], of ?v r] p
  have "bucketed r1 = bucketed r + 1" "vr_total r1 = vr_total r" by auto
  then show ?thesis by (simp add: r' bucketed_total_update)
qed

lemma add_trivy_ok:
  assumes "Severity tv = Some s"
  shows "\<exists>r'. add_trivy_vulnerability tv r = Inr r'"
proof -
  let ?v = "\<lparr>v_package = PkgName tv, v_version = InstalledVersion tv,
                   v_severity = Severity tv, v_description = Description tv,
                   v_fix = FixedVersion tv\<rparr>"
  obtain c where c: "categorizeVulnerability (Severity tv) = Inr c"
    using assms categorize_in_tiers[of s] by simp
  obtain r1 where "push_bucket c ?v r = Inr r1"
    using push_bucket_tier[OF categorize_tier[OF c], of ?v r] by auto
  then show ?thesis using c by (simp add: add_trivy_vulnerability_def)
qed

lemma for_each_invariant:
  assumes step: "\<And>x s s'. f x s = Inr s' \<Longrightarrow> bucketed s' = bucketed s + 1 \<and> vr_total s' = vr_total s + 1"
  shows "vr_total r = bucketed r \<Longrightarrow> vr_total (snd (for_each f xs r)) = bucketed (snd (for_each f xs r))"
proof (induction xs arbitrary: r)
  case Nil
  then show ?case by simp
next
  case (Cons x xs)
  show ?case
  proof (cases "f x r")
    case (Inl e)
    then show ?thesis using Cons.prems by simp
  next
    case (Inr s')
    then show ?thesis using Cons.IH[of s'] step[OF Inr] Cons.prems by simp
  qed
qed

lemma for_each_all:
  assumes step: "\<And>x s s'. f x s = Inr s' \<Longrightarrow> bucketed s' = bucketed s + 1 \<and> vr_total s' = vr_total s + 1"
    and ok: "\<And>x s. x \<in> set xs \<Longrightarrow> \<exists>s'. f x s = Inr s'"
  shows "fst (for_each f xs r) = None \<and> vr_total (snd (for_each f xs r)) = vr_total r + length xs"
  using ok
proof (induction xs arbitrary: r)
  case Nil
  then show ?case by simp
next
  case (Cons x xs)
  obtain s' where s': "f x r = Inr s'" using Cons.prems[of x r] by auto
  have "fst (for_each f xs s') = None \<and> vr_total (snd (for_each f xs s')) = vr_total s' + length xs"
    using Cons.IH[of s'] Cons.prems by simp
  then show ?case using s' step[OF s'] by simp
qed

lemma no_vulnerabilities_consistent: "vr_total no_vulnerabilities = bucketed no_vulnerabilities"
  by (simp add: no_vulnerabilities_def bucketed_def)

lemma trivy_loop_consistent:
  "vr_total (snd (for_each add_trivy_vulnerability xs no_vulnerabilities))
     = bucketed (snd (for_each add_trivy_vulnerability xs no_vulnerabilities))"
proof (rule for_each_invariant)
  fix x s s' assume "add_trivy_vulnerability x s = Inr s'"
  then show "bucketed s' = bucketed s + 1 \<and> vr_total s' = vr_total s + 1"
    by (rule add_trivy_step)
next
  show "vr_total no_vulnerabilities = bucketed no_vulnerabilities"
    by (rule no_vulnerabilities_consistent)
qed

lemma basic_loop_consistent:
  "vr_total (snd (for_each add_vulnerability xs no_vulnerabilities))
     = bucketed (snd (for_each add_vulnerability xs no_vulnerabilities))"
proof (rule for_each_invariant)
  fix x s s' assume "add_vulnerability x s = Inr s'"
  then show "bucketed s' = bucketed s + 1 \<and> vr_total s' = vr_total s + 1"
    by (rule add_vulnerability_step)
next
  show "vr_total no_vulnerabilities = bucketed no_vulnerabilities"
    by (rule no_vulnerabilities_consistent)
qed

lemma parseTrivyResults_consistent:
  "parseTrivyResults d = Inr r \<Longrightarrow> vr_total r = bucketed r"
  using trivy_loop_consistent
  by (auto simp: parseTrivyResults_def no_vulnerabilities_consistent
      split: option.splits list.splits prod.splits) (metis snd_conv)

lemma basicVulnerabilityScan_consistent:
  "vr_total (fst (basicVulnerabilityScan g c img w)) = bucketed (fst (basicVulnerabilityScan g c img w))"
  by (simp add: basicVulnerabilityScan_def no_vulnerabilities_consistent basic_loop_consistent
      split: prod.splits sum.splits)

lemma unknown_severity_info:
  "toLowerCase s \<notin> set tiers \<Longrightarrow> v_severity v = Some s \<Longrightarrow>
     add_vulnerability v rep = Inr (rep\<lparr>vr_info := vr_info rep @ [v], vr_total := vr_total rep + 1\<rparr>)"
  by (simp add: add_vulnerability_def categorize_in_tiers push_bucket_def)

lemma unknown_severity_info_trivy:
  "toLowerCase s \<notin> set tiers \<Longrightarrow> Severity tv = Some s \<Longrightarrow>
     add_trivy_vulnerability tv rep
       = Inr (rep\<lparr>vr_info := vr_info rep @ [trivy_finding tv], vr_total := vr_total rep + 1\<rparr>)"
  by (simp add: add_trivy_vulnerability_def categorize_in_tiers push_bucket_def trivy_finding_def)

lemma parseTrivyResults_all:
  assumes "Results d = Some (r0 # rest)" "Vulnerabilities r0 = Some vs"
    and "\<forall>tv \<in> set vs. Severity tv \<noteq> None"
  shows "\<exists>r. parseTrivyResults d = Inr r \<and> vr_total r = length vs"
proof -
  have ok: "\<And>x s. x \<in> set vs \<Longrightarrow> \<exists>s'. add_trivy_vulnerability x s = Inr s'"
    using assms(3) add_trivy_ok by (metis not_None_eq)
  have "fst (for_each add_trivy_vulnerability vs no_vulnerabilities) = None
      \<and> vr_total (snd (for_each add_trivy_vulnerability vs no_vulnerabilities))
          = vr_total no_vulnerabilities + length vs"
    by (rule for_each_all[of add_trivy_vulnerability vs, OF add_trivy_step ok])
  then show ?thesis using assms(1,2)
    by (auto simp: parseTrivyResults_def no_vulnerabilities_def split: prod.splits)
qed

lemma basicVulnerabilityScan_all:
  assumes "g img w = (Inr os, w1)" "c img os w1 = (Inr vs, w2)"
    and "\<forall>v \<in> set vs. v_severity v \<noteq> None"
  shows "vr_total (fst (basicVulnerabilityScan g c img w)) = length vs"
proof -
  have ok: "\<And>x s. x \<in> set vs \<Longrightarrow> \<exists>s'. add_vulnerability x s = Inr s'"
    using assms(3) add_vulnerability_ok by (metis not_None_eq)
  have "fst (for_each add_vulnerability vs no_vulnerabilities) = None
      \<and> vr_total (snd (for_each add_vulnerability vs no_vulnerabilities))
          = vr_total no_vulnerabilities + length vs"
    by (rule for_each_all[of add_vulnerability vs, OF add_vulnerability_step ok])
  then show ?thesis using assms(1,2)
    by (simp add: basicVulnerabilityScan_def no_vulnerabilities_def)
qed

text \<open>
  C10. Every report returned by parseTrivyResults or by basicVulnerabilityScan has
  total equal to the number of findings in its five buckets. categorizeVulnerability maps a
  severity string to its lower-case form when that is one of the five tiers and to
  \<^verbatim>\<open>info\<close> otherwise, so a finding with any other severity string is appended to the
  info bucket and counted; inserting into the bucket that categorizeVulnerability names
  never fails; and when every finding has a severity string, none is dropped: total is the
  number of findings.
\<close>

theorem vulnerability_total_is_bucket_sum:
  "(parseTrivyResults d = Inr r \<longrightarrow> vr_total r = bucketed r)
   \<and> vr_total (fst (basicVulnerabilityScan g c img w))
       = bucketed (fst (basicVulnerabilityScan g c img w))
   \<and> categorizeVulnerability (Some s)
       = Inr (if toLowerCase s \<in> set tiers then toLowerCase s else ''info'')
   \<and> (toLowerCase s \<notin> set tiers \<and> v_severity v = Some s \<longrightarrow>
        add_vulnerability v rep
          = Inr (rep\<lparr>vr_info := vr_info rep @ [v], vr_total := vr_total rep + 1\<rparr>))
   \<and> (toLowerCase s \<notin> set tiers \<and> Severity tv = Some s \<longrightarrow>
        add_trivy_vulnerability tv rep
          = Inr (rep\<lparr>vr_info := vr_info rep @ [trivy_finding tv], vr_total := vr_total rep + 1\<rparr>))
   \<and> (categorizeVulnerability sev = Inr cg \<longrightarrow> (\<exists>rep'. push_bucket cg v rep = Inr rep'))
   \<and> (Results d = Some (head_result # rest) \<and> Vulnerabilities head_result = Some vs
        \<and> (\<forall>tv \<in> set vs. Severity tv \<noteq> None) \<longrightarrow>
        (\<exists>r. parseTrivyResults d = Inr r \<and> vr_total r = length vs))
   \<and> (g img w = (Inr os, wa) \<and> c img os wa = (Inr fs, wb)
        \<and> (\<forall>v \<in> set fs. v_severity v \<noteq> None) \<longrightarrow>
        vr_total (fst (basicVulnerabilityScan g c img w)) = length fs)"
proof -
  have 6: "categorizeVulnerability sev = Inr cg \<longrightarrow> (\<exists>rep'. push_bucket cg v rep = Inr rep')"
    using push_bucket_tier[OF categorize_tier, of sev cg v rep] by blast
  show ?thesis
    using parseTrivyResults_consistent[of d r] basicVulnerabilityScan_consistent[of g c img w]
      categorize_in_tiers[of s] unknown_severity_info[of s v rep]
      unknown_severity_info_trivy[of s tv rep] 6 parseTrivyResults_all[of d head_result rest vs]
      basicVulnerabilityScan_all[of g img w os wa c fs wb]
    by (intro conjI impI) (elim conjE, assumption | blast)+
qed

theorem vulnerability_total_is_bucket_sum_witness:
  "(\<exists>r. parseTrivyResults trivy_example = Inr r \<and> vr_total r = 3 \<and> bucketed r = 3)
   \<and> vr_total (fst (basicVulnerabilityScan (\<lambda>img. return ()) (\<lambda>img os. return heuristic_findings)
                      ''app:latest'' failing_world)) = 2
   \<and> bucketed (fst (basicVulnerabilityScan (\<lambda>img. return ()) (\<lambda>img os. return heuristic_findings)
                      ''app:latest'' failing_world)) = 2
   \<and> add_vulnerability unknown_finding no_vulnerabilities
       = Inr (no_vulnerabilities\<lparr>vr_info := [unknown_finding], vr_total := 1\<rparr>)"
proof -
  let ?g = "\<lambda>img::string. (return () :: unit action)"
  let ?c = "\<lambda>(img::string) (os::unit). return heuristic_findings"
  let ?vs = "[\<lparr>PkgName = Some ''openssl'', InstalledVersion = Some ''1.1.1'', Severity = Some ''HIGH'',
          Description = Some ''overflow'', FixedVersion = Some ''1.1.2''\<rparr>,
         \<lparr>PkgName = Some ''zlib'', InstalledVersion = Some ''1.2'', Severity = Some ''UNKNOWN'',
          Description = None, FixedVersion = None\<rparr>,
         \<lparr>PkgName = Some ''curl'', InstalledVersion = Some ''7.0'', Severity = Some ''Low'',
          Description = None, FixedVersion = None\<rparr>]"
  note T = vulnerability_total_is_bucket_sum[where d = trivy_example and g = ?g and c = ?c
      and img = "''app:latest''" and w = failing_world and s = "''UNKNOWN''"
      and v = unknown_finding and rep = no_vulnerabilities
      and head_result = "\<lparr>Vulnerabilities = Some ?vs\<rparr>" and rest = "[]" and vs = ?vs
      and os = "()" and wa = failing_world and fs = heuristic_findings and wb = failing_world]
  have h1: "Results trivy_example = Some (\<lparr>Vulnerabilities = Some ?vs\<rparr> # [])
      \<and> Vulnerabilities \<lparr>Vulnerabilities = Some ?vs\<rparr> = Some ?vs
      \<and> (\<forall>tv \<in> set ?vs. Severity tv \<noteq> None)"
    by (simp add: trivy_example_def)
  have h2: "?g ''app:latest'' failing_world = (Inr (), failing_world)
      \<and> ?c ''app:latest'' () failing_world = (Inr heuristic_findings, failing_world)
      \<and> (\<forall>v \<in> set heuristic_findings. v_severity v \<noteq> None)"
    by (simp add: return_def heuristic_findings_def)
  have h3: "toLowerCase ''UNKNOWN'' \<notin> set tiers \<and> v_severity unknown_finding = Some ''UNKNOWN''"
    by (simp add: toLowerCase_def lower_char_def tiers_def unknown_finding_def)
  note tail = T[THEN conjunct2, THEN conjunct2, THEN conjunct2]
  note tail6 = tail[THEN conjunct2, THEN conjunct2, THEN conjunct2]
  obtain r where r: "parseTrivyResults trivy_example = Inr r" "vr_total r = length ?vs"
    using tail6[THEN conjunct1, THEN mp, OF h1] by blast
  have rb: "vr_total r = bucketed r"
    using T[where r = r, THEN conjunct1, THEN mp, OF r(1)] .
  have 1: "\<exists>r. parseTrivyResults trivy_example = Inr r \<and> vr_total r = 3 \<and> bucketed r = 3"
    using r rb by (intro exI[of _ r]) simp
  have 2: "vr_total (fst (basicVulnerabilityScan ?g ?c ''app:latest'' failing_world)) = 2"
    using tail6[THEN conjunct2, THEN mp, OF h2] by (simp add: heuristic_findings_def)
  have 3: "bucketed (fst (basicVulnerabilityScan ?g ?c ''app:latest'' failing_world)) = 2"
    using T[THEN conjunct2, THEN conjunct1] 2 by simp
  have 4: "add_vulnerability unknown_finding no_vulnerabilities
       = Inr (no_vulnerabilities\<lparr>vr_info := [unknown_finding], vr_total := 1\<rparr>)"
    using tail[THEN conjunct1, THEN mp, OF h3] by (simp add: no_vulnerabilities_def)
  show ?thesis using 1 2 3 4 by (intro conjI) assumption+
qed

subsection \<open>Secret scan\<close>

lemma count_password: "count_matches [Lit ''password''] 0 ''password = hunter2'' = 1"
  by (simp add: match_secret_here_def toLowerCase_def lower_char_def is_space_def value_char_def)



lemma trim_c0ffee: "trim (''c0ffee'' @ [CHR 0x0A]) = ''c0ffee''"
  by (simp add: trim_def is_space_def)









lemma find_app: "List.find (\<lambda>e. entry_name e = ''app'') (Dir ''app'' sub # es) = Some (Dir ''app'' sub)"
  by simp






subsection \<open>Formatting and parsing memory sizes\<close>






















end
